theory Spec2Isabelle
  imports Main
begin

section \<open>Go values used by the packages\<close>

text \<open>
  A Go \<^verbatim>\<open>string\<close> is a sequence of bytes, modelled as \<^typ>\<open>string\<close> (a list of
  8-bit characters). \<^verbatim>\<open>int\<close>, \<^verbatim>\<open>int64\<close> and \<^verbatim>\<open>time.Duration\<close> are modelled as
  \<^typ>\<open>int\<close>: the modelled code compares and prints them and never does arithmetic
  that could wrap.
\<close>

subsection \<open>Decimal rendering: \<^verbatim>\<open>strconv.FormatInt(i, 10)\<close>, \<^verbatim>\<open>fmt.Sprint\<close>, \<^verbatim>\<open>%d\<close>\<close>

definition digitChar :: "nat \<Rightarrow> char" where
  "digitChar d = ''0123456789'' ! d"

fun digits10 :: "nat \<Rightarrow> string" where
  "digits10 n =
     (if n < 10 then [digitChar n] else digits10 (n div 10) @ [digitChar (n mod 10)])"

declare digits10.simps [simp del]

definition FormatInt :: "int \<Rightarrow> string" where
  "FormatInt i = (if i < 0 then CHR ''-'' # digits10 (nat (- i)) else digits10 (nat i))"

subsection \<open>Package \<^verbatim>\<open>strings\<close>\<close>

text \<open>
  \<^verbatim>\<open>strings.TrimSpace\<close> removes leading and trailing white space as Unicode defines it.
  On the UTF-8 bytes of a string that is: remove, at either end, every complete encoding
  of one of the white-space code points U+0009..U+000D, U+0020, U+0085, U+00A0, U+1680,
  U+2000..U+200A, U+2028, U+2029, U+202F, U+205F and U+3000.
\<close>

definition spaceRunes :: "string list" where
  "spaceRunes =
     [[CHR 0x09], [CHR 0x0A], [CHR 0x0B], [CHR 0x0C], [CHR 0x0D], [CHR 0x20],
      [CHR 0xC2, CHR 0x85], [CHR 0xC2, CHR 0xA0],
      [CHR 0xE1, CHR 0x9A, CHR 0x80],
      [CHR 0xE2, CHR 0x80, CHR 0x80], [CHR 0xE2, CHR 0x80, CHR 0x81],
      [CHR 0xE2, CHR 0x80, CHR 0x82], [CHR 0xE2, CHR 0x80, CHR 0x83],
      [CHR 0xE2, CHR 0x80, CHR 0x84], [CHR 0xE2, CHR 0x80, CHR 0x85],
      [CHR 0xE2, CHR 0x80, CHR 0x86], [CHR 0xE2, CHR 0x80, CHR 0x87],
      [CHR 0xE2, CHR 0x80, CHR 0x88], [CHR 0xE2, CHR 0x80, CHR 0x89],
      [CHR 0xE2, CHR 0x80, CHR 0x8A],
      [CHR 0xE2, CHR 0x80, CHR 0xA8], [CHR 0xE2, CHR 0x80, CHR 0xA9],
      [CHR 0xE2, CHR 0x80, CHR 0xAF],
      [CHR 0xE2, CHR 0x81, CHR 0x9F],
      [CHR 0xE3, CHR 0x80, CHR 0x80]]"

definition HasPrefix :: "string \<Rightarrow> string \<Rightarrow> bool" where
  "HasPrefix s p = (take (length p) s = p)"

definition HasSuffix :: "string \<Rightarrow> string \<Rightarrow> bool" where
  "HasSuffix s suf = (length suf \<le> length s \<and> drop (length s - length suf) s = suf)"

text \<open>The number of bytes of the white-space code point a string starts with, or 0.\<close>

definition leadingRuneLen :: "string list \<Rightarrow> string \<Rightarrow> nat" where
  "leadingRuneLen runes s =
     (case find (\<lambda>p. p \<noteq> [] \<and> HasPrefix s p) runes of None \<Rightarrow> 0 | Some p \<Rightarrow> length p)"

function trimLeading :: "string list \<Rightarrow> string \<Rightarrow> string" where
  "trimLeading runes s =
     (if s = [] \<or> leadingRuneLen runes s = 0 then s
      else trimLeading runes (drop (leadingRuneLen runes s) s))"
  by pat_completeness auto
termination
  by (relation "measure (\<lambda>(runes, s). length s)") auto

declare trimLeading.simps [simp del]

definition TrimSpace :: "string \<Rightarrow> string" where
  "TrimSpace s = rev (trimLeading (map rev spaceRunes) (rev (trimLeading spaceRunes s)))"

text \<open>
  \<^verbatim>\<open>strings.ToLower\<close> has two branches. For a string of ASCII bytes it maps the letters
  A..Z to a..z: that branch is \<open>ToLower\<close>. For a string with a byte beyond ASCII it
  returns \<^verbatim>\<open>strings.Map(unicode.ToLower, s)\<close>, which decodes the string and maps every
  code point with the Unicode case tables. Those tables lie outside the repository, so
  \<open>ToLowerUnicode\<close>, the whole of \<^verbatim>\<open>strings.ToLower\<close>, takes that map as the parameter
  \<open>mapLower\<close>.
\<close>

definition toLowerByte :: "char \<Rightarrow> char" where
  "toLowerByte c =
     (case map_of (zip ''ABCDEFGHIJKLMNOPQRSTUVWXYZ'' ''abcdefghijklmnopqrstuvwxyz'') c of
        None \<Rightarrow> c | Some l \<Rightarrow> l)"

definition ToLower :: "string \<Rightarrow> string" where
  "ToLower s = map toLowerByte s"

definition isASCII :: "string \<Rightarrow> bool" where
  "isASCII s = list_all (\<lambda>c. (of_char c :: nat) < 128) s"

definition ToLowerUnicode :: "(string \<Rightarrow> string) \<Rightarrow> string \<Rightarrow> string" where
  "ToLowerUnicode mapLower s = (if isASCII s then ToLower s else mapLower s)"

text \<open>\<^verbatim>\<open>strings.TrimLeft(s, "/")\<close>: a cutset of one ASCII byte.\<close>

definition TrimLeftByte :: "string \<Rightarrow> char \<Rightarrow> string" where
  "TrimLeftByte s c = dropWhile (\<lambda>x. x = c) s"

text \<open>\<^verbatim>\<open>strings.Split(s, sep)\<close> for a separator of one byte, and \<^verbatim>\<open>strings.Join\<close>.\<close>

fun Split :: "string \<Rightarrow> char \<Rightarrow> string list" where
  "Split [] sep = [[]]"
| "Split (c # cs) sep =
     (if c = sep then [] # Split cs sep
      else (case Split cs sep of [] \<Rightarrow> [[c]] | w # ws \<Rightarrow> (c # w) # ws))"

fun Join :: "string list \<Rightarrow> string \<Rightarrow> string" where
  "Join [] sep = []"
| "Join [w] sep = w"
| "Join (w # ws) sep = w @ sep @ Join ws sep"

subsection \<open>\<^verbatim>\<open>url.PathEscape\<close>\<close>

text \<open>
  A byte of a path segment is kept when it is an ASCII letter or digit, one of the
  unreserved marks \<open>- _ . ~\<close> or one of the reserved characters \<open>$ & + : = @\<close>; every
  other byte becomes \<open>%XX\<close> with upper-case hexadecimal digits.
\<close>

definition shouldEscape :: "char \<Rightarrow> bool" where
  "shouldEscape c =
     (c \<notin> set ''abcdefghijklmnopqrstuvwxyzABCDEFGHIJKLMNOPQRSTUVWXYZ0123456789-_.~$&+:=@'')"

definition upperhex :: "nat \<Rightarrow> char" where
  "upperhex d = ''0123456789ABCDEF'' ! d"

definition escapeByte :: "char \<Rightarrow> string" where
  "escapeByte c =
     (if shouldEscape c
      then [CHR ''%'', upperhex ((of_char c :: nat) div 16), upperhex ((of_char c :: nat) mod 16)]
      else [c])"

definition PathEscape :: "string \<Rightarrow> string" where
  "PathEscape s = concat (map escapeByte s)"

section \<open>Package githubapi\<close>

subsection \<open>Errors (err.go)\<close>

text \<open>
  The error values of the package: the three typed errors of err.go, the untyped errors
  made by \<^verbatim>\<open>errors.New\<close> and \<^verbatim>\<open>fmt.Errorf\<close> (kept as the format string and its
  arguments), and \<open>LibError\<close> for an error value that comes from outside the repository
  (the HTTP transport, \<^verbatim>\<open>encoding/json\<close>, \<^verbatim>\<open>net/url\<close>).
\<close>

datatype error =
    HTTPError int string
  | ProfileNotFoundError string
  | RepoNotFoundError string
  | Errorf string "string list"
  | LibError string

definition NewProfileNotFoundError :: "string \<Rightarrow> error" where
  "NewProfileNotFoundError profile = ProfileNotFoundError profile"

definition NewRepoNotFoundError :: "string \<Rightarrow> error" where
  "NewRepoNotFoundError repo = RepoNotFoundError repo"

subsection \<open>HTTP requests and responses\<close>

text \<open>
  A request body is kept as the value that is serialised: the JSON object (a Go map from
  member names to strings) given to \<^verbatim>\<open>json.Marshal\<close>, or the form values given to
  \<^verbatim>\<open>url.Values.Encode\<close>.
\<close>

datatype payload = NoBody | JSONObject "string \<rightharpoonup> string" | FormValues "string \<rightharpoonup> string"

record request =
  Method :: string
  URL :: string
  Header :: "string \<rightharpoonup> string"
  Payload :: payload

text \<open>
  A response: the status code, the bytes its body delivers, and the error (if any) with
  which reading the body ends.
\<close>

record response =
  StatusCode :: int
  Body :: string
  ReadErr :: "error option"

text \<open>The \<^verbatim>\<open>Doer\<close> interface: \<^verbatim>\<open>Do(req)\<close> returns an error or a response.\<close>

type_synonym Doer = "request \<Rightarrow> error + response"

text \<open>
  A call either panics (a method call on the nil \<^verbatim>\<open>Doer\<close>) or returns. What a function
  returns is its Go result tuple followed by the list of requests it handed to the
  transport, in order.
\<close>

datatype 'a outcome = Panic | Return 'a

subsection \<open>The client (\<^verbatim>\<open>GitHubAPI\<close>)\<close>

record OAuthApp =
  ClientID :: string
  ClientSecret :: string
  RedirectURI :: string

record GitHubAPI =
  oAuth :: OAuthApp
  baseURL :: string
  userAgent :: string
  timeout :: int
  http :: "Doer option"
  accessToken :: string

text \<open>The zero value \<^verbatim>\<open>GitHubAPI{}\<close>; its \<^verbatim>\<open>http\<close> field is the nil interface.\<close>

definition zeroGitHubAPI :: GitHubAPI where
  "zeroGitHubAPI =
     \<lparr>oAuth = \<lparr>ClientID = [], ClientSecret = [], RedirectURI = []\<rparr>,
      baseURL = [], userAgent = [], timeout = 0, http = None, accessToken = []\<rparr>"

text \<open>
  \<^verbatim>\<open>NewDefaultGitHubAPI\<close>. Its transport is an \<^verbatim>\<open>http.Client\<close> with a timeout of ten
  seconds; \<open>net\<close> is what that client does with a request. Durations are nanoseconds.
\<close>

definition NewDefaultGitHubAPI :: "Doer \<Rightarrow> GitHubAPI" where
  "NewDefaultGitHubAPI net =
     \<lparr>oAuth = \<lparr>ClientID = [], ClientSecret = [], RedirectURI = []\<rparr>,
      baseURL = ''https://api.github.com'', userAgent = ''githubapi/1.0'',
      timeout = 10 * 1000000000, http = Some net, accessToken = []\<rparr>"

type_synonym Option = "GitHubAPI \<Rightarrow> GitHubAPI"

definition WithHTTP :: "Doer option \<Rightarrow> Option" where
  "WithHTTP h api = api\<lparr>http := h\<rparr>"

definition WithTimeout :: "int \<Rightarrow> Option" where
  "WithTimeout t api = api\<lparr>timeout := t\<rparr>"

definition WithUserAgent :: "string \<Rightarrow> Option" where
  "WithUserAgent ua api = api\<lparr>userAgent := ua\<rparr>"

definition WithBaseURL :: "string \<Rightarrow> Option" where
  "WithBaseURL u api = api\<lparr>baseURL := u\<rparr>"

definition WithOAuth :: "OAuthApp \<Rightarrow> Option" where
  "WithOAuth a api = api\<lparr>oAuth := a\<rparr>"

definition WithOptions :: "Doer \<Rightarrow> Option list \<Rightarrow> GitHubAPI" where
  "WithOptions net opts = fold (\<lambda>opt def. opt def) opts (NewDefaultGitHubAPI net)"

definition applyFrom :: "GitHubAPI \<Rightarrow> GitHubAPI \<Rightarrow> GitHubAPI" where
  "applyFrom p api =
     p\<lparr>http := http api, oAuth := oAuth api, baseURL := baseURL api,
       userAgent := userAgent api, timeout := timeout api\<rparr>"

text \<open>
  \<^verbatim>\<open>newReq\<close>. \<^verbatim>\<open>http.NewRequestWithContext\<close> fails when the URL does not parse;
  \<open>urlOK\<close> says which URLs parse (the methods used are the constants GET and PUT, which
  are valid).
\<close>

definition newReq :: "(string \<Rightarrow> bool) \<Rightarrow> GitHubAPI \<Rightarrow> string \<Rightarrow> string \<Rightarrow> payload \<Rightarrow> error + request" where
  "newReq urlOK c method path body =
     (if \<not> urlOK (baseURL c @ path) then Inl (LibError ''net/url: parse error'')
      else
        let req = \<lparr>Method = method, URL = baseURL c @ path, Header = Map.empty, Payload = body\<rparr>;
            req = req\<lparr>Header := (Header req)(''Accept'' \<mapsto> ''application/vnd.github.v3+json'')\<rparr>;
            req = (if userAgent c \<noteq> []
                   then req\<lparr>Header := (Header req)(''User-Agent'' \<mapsto> userAgent c)\<rparr> else req)
        in Inr req)"

text \<open>
  \<^verbatim>\<open>doJSON\<close>. \<open>out\<close> is the decode target (\<open>None\<close> is the nil target) and \<open>unmarshal\<close>
  is \<^verbatim>\<open>json.Unmarshal\<close> at the target's type: from the bytes and the target's current
  value it gives the error and the target's new value. At most \<open>1 << 20\<close> bytes of the
  body are read and the error of reading is dropped.
\<close>

definition doJSON ::
  "(string \<Rightarrow> 't \<Rightarrow> error option \<times> 't) \<Rightarrow> GitHubAPI \<Rightarrow> request \<Rightarrow> 't option
     \<Rightarrow> (error option \<times> 't option \<times> request list) outcome" where
  "doJSON unmarshal c req out =
     (case http c of
        None \<Rightarrow> Panic
      | Some d \<Rightarrow>
          (case d req of
             Inl err \<Rightarrow> Return (Some err, out, [req])
           | Inr resp \<Rightarrow>
               let b = take (2 ^ 20) (Body resp) in
               if StatusCode resp < 200 \<or> StatusCode resp \<ge> 300
               then Return (Some (HTTPError (StatusCode resp) b), out, [req])
               else
                 (case out of
                    None \<Rightarrow> Return (None, out, [req])
                  | Some v \<Rightarrow>
                      if length b = 0 then Return (None, out, [req])
                      else (case unmarshal b v of (e, v') \<Rightarrow> Return (e, Some v', [req])))))"

text \<open>The decoder handed to \<^verbatim>\<open>doJSON\<close> together with a nil target is never run.\<close>

definition noTarget :: "string \<Rightarrow> unit \<Rightarrow> error option \<times> unit" where
  "noTarget b u = (None, u)"

subsection \<open>Resource objects\<close>

text \<open>
  \<^verbatim>\<open>GitHubProfileAPI\<close> and \<^verbatim>\<open>GitHubRepoAPI\<close> embed a \<^verbatim>\<open>GitHubAPI\<close> and add the
  JSON-tagged fields. All fields of the embedded \<^verbatim>\<open>GitHubAPI\<close> are unexported, so
  \<^verbatim>\<open>json.Unmarshal\<close> into a resource object writes the JSON-tagged fields only: a
  decoder for a resource object is a decoder for its JSON-tagged part. The fields kept
  are the ones the modelled methods read; the remaining JSON-tagged fields of the Go
  structs are decoded data that no modelled method looks at.
\<close>

record ProfileJSON =
  Login :: string
  ID :: int
  Name :: string
  Email :: "string option"
  PublicRepos :: int

record GitHubProfileAPI =
  profileAPI :: GitHubAPI
  profileJSON :: ProfileJSON

record RepoOwner =
  OwnerLogin :: string
  OwnerID :: int

record RepoJSON =
  RepoID :: int
  RepoName :: string
  FullName :: string
  Private :: bool
  Owner :: RepoOwner
  HTMLURL :: string
  GitURL :: string
  SSHURL :: string
  CloneURL :: string
  StargazersCount :: int
  ForksCount :: int
  Visibility :: string
  Watchers :: int
  DefaultBranch :: string

record GitHubRepoAPI =
  repoAPI :: GitHubAPI
  repoJSON :: RepoJSON

text \<open>The zero values \<^verbatim>\<open>GitHubProfileAPI{}\<close> and \<^verbatim>\<open>GitHubRepoAPI{}\<close>.\<close>

definition zeroProfileJSON :: ProfileJSON where
  "zeroProfileJSON = \<lparr>Login = [], ID = 0, Name = [], Email = None, PublicRepos = 0\<rparr>"

definition zeroProfile :: GitHubProfileAPI where
  "zeroProfile = \<lparr>profileAPI = zeroGitHubAPI, profileJSON = zeroProfileJSON\<rparr>"

definition zeroRepoJSON :: RepoJSON where
  "zeroRepoJSON =
     \<lparr>RepoID = 0, RepoName = [], FullName = [], Private = False,
      Owner = \<lparr>OwnerLogin = [], OwnerID = 0\<rparr>,
      HTMLURL = [], GitURL = [], SSHURL = [], CloneURL = [],
      StargazersCount = 0, ForksCount = 0, Visibility = [], Watchers = 0,
      DefaultBranch = []\<rparr>"

definition zeroRepo :: GitHubRepoAPI where
  "zeroRepo = \<lparr>repoAPI = zeroGitHubAPI, repoJSON = zeroRepoJSON\<rparr>"

type_synonym 'j decoder = "string \<Rightarrow> 'j \<Rightarrow> error option \<times> 'j"

definition intoProfile :: "ProfileJSON decoder \<Rightarrow> GitHubProfileAPI decoder" where
  "intoProfile dec b p = (case dec b (profileJSON p) of (e, j) \<Rightarrow> (e, p\<lparr>profileJSON := j\<rparr>))"

definition intoRepo :: "RepoJSON decoder \<Rightarrow> GitHubRepoAPI decoder" where
  "intoRepo dec b r = (case dec b (repoJSON r) of (e, j) \<Rightarrow> (e, r\<lparr>repoJSON := j\<rparr>))"

subsection \<open>Lookups by user name and by id\<close>

text \<open>
  In each function \<open>urlOK\<close> is the URL parser behind \<^verbatim>\<open>newReq\<close> and \<open>dec\<close> is
  \<^verbatim>\<open>json.Unmarshal\<close> on the JSON-tagged fields of the target. A result is the Go result
  pair followed by the requests sent.
\<close>

definition CheckUserExists ::
  "(string \<Rightarrow> bool) \<Rightarrow> GitHubAPI \<Rightarrow> string \<Rightarrow> (bool \<times> error option \<times> request list) outcome" where
  "CheckUserExists urlOK c username0 =
     (let username = TrimSpace username0 in
      if username = [] then Return (False, Some (Errorf ''username is empty'' []), [])
      else
        (case newReq urlOK c ''GET'' (''/users/'' @ PathEscape username) NoBody of
           Inl err \<Rightarrow> Return (False, Some err, [])
         | Inr req \<Rightarrow>
             (case doJSON noTarget c req None of
                Panic \<Rightarrow> Panic
              | Return (Some err, _, sent) \<Rightarrow>
                  (case err of
                     HTTPError code _ \<Rightarrow>
                       if code = 404 then Return (False, None, sent)
                       else Return (False, Some err, sent)
                   | _ \<Rightarrow> Return (False, Some err, sent))
              | Return (None, _, sent) \<Rightarrow> Return (True, None, sent))))"

definition GetUserIfExists ::
  "(string \<Rightarrow> bool) \<Rightarrow> ProfileJSON decoder \<Rightarrow> GitHubAPI \<Rightarrow> string
     \<Rightarrow> (GitHubProfileAPI option \<times> error option \<times> request list) outcome" where
  "GetUserIfExists urlOK dec c username0 =
     (let username = TrimSpace username0 in
      if username = [] then Return (None, Some (Errorf ''username is empty'' []), [])
      else
        (case newReq urlOK c ''GET'' (''/users/'' @ PathEscape username) NoBody of
           Inl err \<Rightarrow> Return (None, Some err, [])
         | Inr req \<Rightarrow>
             (case doJSON (intoProfile dec) c req (Some zeroProfile) of
                Panic \<Rightarrow> Panic
              | Return (Some err, _, sent) \<Rightarrow>
                  (case err of
                     HTTPError code _ \<Rightarrow>
                       if code = 404 then Return (None, Some (NewProfileNotFoundError username), sent)
                       else Return (None, Some err, sent)
                   | _ \<Rightarrow> Return (None, Some err, sent))
              | Return (None, profile, sent) \<Rightarrow>
                  Return (map_option (\<lambda>p. p\<lparr>profileAPI := applyFrom (profileAPI p) c\<rparr>) profile,
                          None, sent))))"

definition CheckUserExistsById ::
  "(string \<Rightarrow> bool) \<Rightarrow> GitHubAPI \<Rightarrow> int \<Rightarrow> (bool \<times> error option \<times> request list) outcome" where
  "CheckUserExistsById urlOK c ident =
     (case newReq urlOK c ''GET'' (''/user/'' @ PathEscape (FormatInt ident)) NoBody of
        Inl err \<Rightarrow> Return (False, Some err, [])
      | Inr req \<Rightarrow>
          (case doJSON noTarget c req None of
             Panic \<Rightarrow> Panic
           | Return (Some err, _, sent) \<Rightarrow>
               (case err of
                  HTTPError code _ \<Rightarrow>
                    if code = 404 then Return (False, None, sent)
                    else Return (False, Some err, sent)
                | _ \<Rightarrow> Return (False, Some err, sent))
           | Return (None, _, sent) \<Rightarrow> Return (True, None, sent)))"

text \<open>
  \<^verbatim>\<open>CheckIsRepoExistsById\<close>: inside \<^verbatim>\<open>if err := c.doJSON(req, repo); err != nil\<close> only
  the 404 case returns; every other error falls through to \<^verbatim>\<open>return true, nil\<close>.
\<close>

definition CheckIsRepoExistsById ::
  "(string \<Rightarrow> bool) \<Rightarrow> RepoJSON decoder \<Rightarrow> GitHubAPI \<Rightarrow> int
     \<Rightarrow> (bool \<times> error option \<times> request list) outcome" where
  "CheckIsRepoExistsById urlOK dec c ident =
     (case newReq urlOK c ''GET'' (''/repositories/'' @ PathEscape (FormatInt ident)) NoBody of
        Inl err \<Rightarrow> Return (False, Some err, [])
      | Inr req \<Rightarrow>
          (case doJSON (intoRepo dec) c req (Some zeroRepo) of
             Panic \<Rightarrow> Panic
           | Return (Some err, _, sent) \<Rightarrow>
               (case err of
                  HTTPError code _ \<Rightarrow>
                    if code = 404 then Return (False, None, sent)
                    else Return (True, None, sent)
                | _ \<Rightarrow> Return (True, None, sent))
           | Return (None, _, sent) \<Rightarrow> Return (True, None, sent)))"

text \<open>\<^verbatim>\<open>GetRepoByIdIfExist\<close> returns the decoded \<^verbatim>\<open>repo\<close> as it is.\<close>

definition GetRepoByIdIfExist ::
  "(string \<Rightarrow> bool) \<Rightarrow> RepoJSON decoder \<Rightarrow> GitHubAPI \<Rightarrow> int
     \<Rightarrow> (GitHubRepoAPI option \<times> error option \<times> request list) outcome" where
  "GetRepoByIdIfExist urlOK dec c ident =
     (case newReq urlOK c ''GET'' (''/repositories/'' @ PathEscape (FormatInt ident)) NoBody of
        Inl err \<Rightarrow> Return (None, Some err, [])
      | Inr req \<Rightarrow>
          (case doJSON (intoRepo dec) c req (Some zeroRepo) of
             Panic \<Rightarrow> Panic
           | Return (Some err, _, sent) \<Rightarrow>
               (case err of
                  HTTPError code _ \<Rightarrow>
                    if code = 404 then Return (None, Some (NewRepoNotFoundError (FormatInt ident)), sent)
                    else Return (None, Some err, sent)
                | _ \<Rightarrow> Return (None, Some err, sent))
           | Return (None, repo, sent) \<Rightarrow> Return (repo, None, sent)))"

definition GetUserByIdIfExist ::
  "(string \<Rightarrow> bool) \<Rightarrow> ProfileJSON decoder \<Rightarrow> GitHubAPI \<Rightarrow> int
     \<Rightarrow> (GitHubProfileAPI option \<times> error option \<times> request list) outcome" where
  "GetUserByIdIfExist urlOK dec c ident =
     (case newReq urlOK c ''GET'' (''/user/'' @ PathEscape (FormatInt ident)) NoBody of
        Inl err \<Rightarrow> Return (None, Some err, [])
      | Inr req \<Rightarrow>
          (case doJSON (intoProfile dec) c req (Some zeroProfile) of
             Panic \<Rightarrow> Panic
           | Return (Some err, _, sent) \<Rightarrow>
               (case err of
                  HTTPError code _ \<Rightarrow>
                    if code = 404
                    then Return (None, Some (NewProfileNotFoundError (FormatInt ident)), sent)
                    else Return (None, Some err, sent)
                | _ \<Rightarrow> Return (None, Some err, sent))
           | Return (None, profile, sent) \<Rightarrow>
               Return (map_option (\<lambda>p. p\<lparr>profileAPI := applyFrom (profileAPI p) c\<rparr>) profile,
                       None, sent)))"

subsection \<open>Methods of a profile\<close>

text \<open>
  \<^verbatim>\<open>IsRepoExist\<close> and \<^verbatim>\<open>GetRepoIfExist\<close> name the error of \<^verbatim>\<open>doJSON\<close> \<^verbatim>\<open>jerror\<close>; on an
  error other than a 404 they return the variable \<^verbatim>\<open>err\<close>, which is the error of
  \<^verbatim>\<open>newReq\<close> and is nil at that point.
\<close>

definition IsRepoExist ::
  "(string \<Rightarrow> bool) \<Rightarrow> RepoJSON decoder \<Rightarrow> GitHubProfileAPI \<Rightarrow> string
     \<Rightarrow> (bool \<times> error option \<times> request list) outcome" where
  "IsRepoExist urlOK dec p name =
     (case newReq urlOK (profileAPI p) ''GET''
             (''/repos/'' @ Login (profileJSON p) @ ''/'' @ name) NoBody of
        Inl err \<Rightarrow> Return (False, Some err, [])
      | Inr req \<Rightarrow>
          let err = (None :: error option) in
          (case doJSON (intoRepo dec) (profileAPI p) req (Some zeroRepo) of
             Panic \<Rightarrow> Panic
           | Return (Some jerror, _, sent) \<Rightarrow>
               (case jerror of
                  HTTPError code _ \<Rightarrow>
                    if code = 404 then Return (False, None, sent)
                    else Return (False, err, sent)
                | _ \<Rightarrow> Return (False, err, sent))
           | Return (None, _, sent) \<Rightarrow> Return (True, None, sent)))"

definition GetRepoIfExist ::
  "(string \<Rightarrow> bool) \<Rightarrow> RepoJSON decoder \<Rightarrow> GitHubProfileAPI \<Rightarrow> string
     \<Rightarrow> (GitHubRepoAPI option \<times> error option \<times> request list) outcome" where
  "GetRepoIfExist urlOK dec p name =
     (case newReq urlOK (profileAPI p) ''GET''
             (''/repos/'' @ Login (profileJSON p) @ ''/'' @ name) NoBody of
        Inl err \<Rightarrow> Return (None, Some err, [])
      | Inr req \<Rightarrow>
          let err = (None :: error option) in
          (case doJSON (intoRepo dec) (profileAPI p) req (Some zeroRepo) of
             Panic \<Rightarrow> Panic
           | Return (Some jerror, _, sent) \<Rightarrow>
               (case jerror of
                  HTTPError code _ \<Rightarrow>
                    if code = 404 then Return (None, Some (NewRepoNotFoundError name), sent)
                    else Return (None, err, sent)
                | _ \<Rightarrow> Return (None, err, sent))
           | Return (None, repo, sent) \<Rightarrow> Return (repo, None, sent)))"

subsection \<open>Methods of a repository\<close>

definition PreferredCloneURL :: "GitHubRepoAPI \<Rightarrow> bool \<Rightarrow> string" where
  "PreferredCloneURL r ssh =
     (if ssh \<and> SSHURL (repoJSON r) \<noteq> [] then SSHURL (repoJSON r)
      else if CloneURL (repoJSON r) \<noteq> [] then CloneURL (repoJSON r)
      else if GitURL (repoJSON r) \<noteq> [] then GitURL (repoJSON r)
      else HTMLURL (repoJSON r))"

text \<open>
  The preference order in the words of the specification: the candidates in order are the
  SSH URL (only when the SSH preference is set), the HTTPS clone URL and the git URL; the
  first non-empty candidate wins and the web URL is the fallback.
\<close>

definition cloneCandidates :: "GitHubRepoAPI \<Rightarrow> bool \<Rightarrow> string list" where
  "cloneCandidates r ssh =
     (if ssh then [SSHURL (repoJSON r)] else []) @ [CloneURL (repoJSON r), GitURL (repoJSON r)]"

definition firstNonEmptyOr :: "string list \<Rightarrow> string \<Rightarrow> string" where
  "firstNonEmptyOr cands fallback =
     (case filter (\<lambda>u. u \<noteq> []) cands of [] \<Rightarrow> fallback | u # _ \<Rightarrow> u)"

subsection \<open>Human-readable counts\<close>

text \<open>
  \<open>roundHalfEven a b\<close>: the integer nearest to \<open>a / b\<close>, the even one of two that
  are equally near (the rounding of IEEE 754 arithmetic and of \<^verbatim>\<open>%.1f\<close>).
\<close>

definition roundHalfEven :: "nat \<Rightarrow> nat \<Rightarrow> nat" where
  "roundHalfEven a b =
     (let q = a div b; r = a mod b in
      if 2 * r < b then q else if b < 2 * r then q + 1 else if even q then q else q + 1)"

text \<open>\<open>binExp a b\<close>: for \<open>a \<ge> b > 0\<close> the binary exponent of \<open>a / b\<close>, the \<open>L\<close> with \<open>2 ^ L \<le> a / b < 2 ^ (L + 1)\<close>.\<close>

function binExp :: "nat \<Rightarrow> nat \<Rightarrow> nat" where
  "binExp a b = (if b = 0 \<or> a < 2 * b then 0 else Suc (binExp (a div 2) b))"
  by pat_completeness auto
termination
  by (relation "measure fst") auto

declare binExp.simps [simp del]

text \<open>
  A \<^verbatim>\<open>float64\<close> of the magnitudes that occur here is a pair \<open>(m, e)\<close> with the value
  \<open>m * 2 ^ e\<close> and a significand \<open>m\<close> of at most 53 bits. \<open>float64 n\<close> is the conversion
  \<^verbatim>\<open>float64(n)\<close> of a non-negative integer: exact below \<open>2 ^ 53\<close>, rounded to 53 bits
  above.
\<close>

definition float64 :: "nat \<Rightarrow> nat \<times> int" where
  "float64 n =
     (if n < 2 ^ 53 then (n, 0)
      else let s = binExp n 1 - 52 in (roundHalfEven n (2 ^ s), int s))"

text \<open>
  \<open>fdiv f d\<close>: the quotient of the float \<open>f\<close>, whose value is an integer \<open>v \<ge> d\<close>, by
  the constant \<open>d\<close> (1000 and 1000000 are \<^verbatim>\<open>float64\<close> values), rounded to a significand
  of 53 bits.
\<close>

definition fdiv :: "nat \<times> int \<Rightarrow> nat \<Rightarrow> nat \<times> int" where
  "fdiv f d =
     (let v = fst f * 2 ^ nat (snd f); L = binExp v d in
      if L \<le> 52 then (roundHalfEven (v * 2 ^ (52 - L)) d, - int (52 - L))
      else (roundHalfEven v (d * 2 ^ (L - 52)), int (L - 52)))"

text \<open>
  \<^verbatim>\<open>%.1f\<close>: the value in tenths, rounded to the nearest integer \<open>t\<close> (half to even, on the
  exact binary value), printed as the digits of \<open>t div 10\<close>, a point and the digit
  \<open>t mod 10\<close>.
\<close>

definition formatF1 :: "nat \<times> int \<Rightarrow> string" where
  "formatF1 y =
     (let t = (if snd y < 0 then roundHalfEven (fst y * 10) (2 ^ nat (- snd y))
               else fst y * 2 ^ nat (snd y) * 10)
      in digits10 (t div 10) @ ''.'' @ [digitChar (t mod 10)])"

definition humanizeInt :: "int \<Rightarrow> string" where
  "humanizeInt n =
     (if n \<ge> 1000000 then formatF1 (fdiv (float64 (nat n)) 1000000) @ ''M''
      else if n \<ge> 1000 then formatF1 (fdiv (float64 (nat n)) 1000) @ ''k''
      else FormatInt n)"

definition StarsHuman :: "GitHubRepoAPI \<Rightarrow> string" where
  "StarsHuman r = humanizeInt (StargazersCount (repoJSON r))"

definition ForksHuman :: "GitHubRepoAPI \<Rightarrow> string" where
  "ForksHuman r = humanizeInt (ForksCount (repoJSON r))"

definition WatchersHuman :: "GitHubRepoAPI \<Rightarrow> string" where
  "WatchersHuman r = humanizeInt (Watchers (repoJSON r))"

subsection \<open>\<^verbatim>\<open>base64.StdEncoding\<close>\<close>

text \<open>
  The standard alphabet with padding (RFC 4648): three bytes become four characters, a
  final group of two bytes becomes three characters and one \<open>=\<close>, a final single byte
  becomes two characters and \<open>==\<close>.
\<close>

definition encodeStd :: "string" where
  "encodeStd = ''ABCDEFGHIJKLMNOPQRSTUVWXYZabcdefghijklmnopqrstuvwxyz0123456789+/''"

fun EncodeToString :: "string \<Rightarrow> string" where
  "EncodeToString [] = []"
| "EncodeToString [a] =
     (let x = (of_char a :: nat) in
      [encodeStd ! (x div 4), encodeStd ! ((x mod 4) * 16), CHR ''='', CHR ''=''])"
| "EncodeToString [a, b] =
     (let x = (of_char a :: nat); y = (of_char b :: nat) in
      [encodeStd ! (x div 4), encodeStd ! ((x mod 4) * 16 + y div 16),
       encodeStd ! ((y mod 16) * 4), CHR ''=''])"
| "EncodeToString (a # b # c # rest) =
     (let x = (of_char a :: nat); y = (of_char b :: nat); z = (of_char c :: nat) in
      [encodeStd ! (x div 4), encodeStd ! ((x mod 4) * 16 + y div 16),
       encodeStd ! ((y mod 16) * 4 + z div 64), encodeStd ! (z mod 64)]
      @ EncodeToString rest)"

text \<open>
  The receiving side, \<^verbatim>\<open>DecodeString\<close>: the position of each character in the
  alphabet gives six bits; \<open>None\<close> is the error for text that is not padded base64.
\<close>

fun indexOf :: "'a \<Rightarrow> 'a list \<Rightarrow> nat option" where
  "indexOf c [] = None"
| "indexOf c (x # xs) = (if x = c then Some 0 else map_option Suc (indexOf c xs))"

fun DecodeString :: "string \<Rightarrow> string option" where
  "DecodeString [] = Some []"
| "DecodeString (p # q # r # s # rest) =
     (case (indexOf p encodeStd, indexOf q encodeStd) of
        (Some s0, Some s1) \<Rightarrow>
          if rest = [] \<and> r = CHR ''='' \<and> s = CHR ''=''
          then Some [char_of (s0 * 4 + s1 div 16)]
          else
            (case indexOf r encodeStd of
               None \<Rightarrow> None
             | Some s2 \<Rightarrow>
                 if rest = [] \<and> s = CHR ''=''
                 then Some [char_of (s0 * 4 + s1 div 16), char_of ((s1 mod 16) * 16 + s2 div 4)]
                 else
                   (case indexOf s encodeStd of
                      None \<Rightarrow> None
                    | Some s3 \<Rightarrow>
                        map_option
                          (\<lambda>t. [char_of (s0 * 4 + s1 div 16), char_of ((s1 mod 16) * 16 + s2 div 4),
                                char_of ((s2 mod 4) * 64 + s3)] @ t)
                          (DecodeString rest)))
      | _ \<Rightarrow> None)"
| "DecodeString _ = None"

subsection \<open>Uploading a file to a repository\<close>

text \<open>\<^verbatim>\<open>CreateContentResp\<close>, with its two nested structs written out.\<close>

record CreateContentResp =
  ContentName :: string
  ContentPath :: string
  ContentSHA :: string
  ContentHTMLURL :: string
  CommitSHA :: string
  CommitMessage :: string
  CommitHTMLURL :: string

definition zeroCreateContentResp :: CreateContentResp where
  "zeroCreateContentResp =
     \<lparr>ContentName = [], ContentPath = [], ContentSHA = [], ContentHTMLURL = [],
      CommitSHA = [], CommitMessage = [], CommitHTMLURL = []\<rparr>"

definition pathEscapeSegments :: "string \<Rightarrow> string" where
  "pathEscapeSegments p = Join (map PathEscape (Split p CHR ''/'')) ''/''"

text \<open>
  The file name that \<^verbatim>\<open>UploadMdFileWithToken\<close> uploads to, from the trimmed,
  non-empty name \<open>fn\<close>: \<open>.md\<close> is appended unless the name ends with it in any letter
  case, then leading slashes are removed. The source reads of \<^verbatim>\<open>strings.ToLower(fn)\<close>
  only whether it ends in \<open>.md\<close>. No code point beyond ASCII is mapped to \<open>.\<close>, \<open>m\<close>
  or \<open>d\<close>, so that holds exactly when the last three bytes of \<open>fn\<close> are \<open>.\<close>, \<open>m\<close> or
  \<open>M\<close>, and \<open>d\<close> or \<open>D\<close>, which is what the test on \<open>ToLower fn\<close> says for every name.
\<close>

definition mdFileName :: "string \<Rightarrow> string" where
  "mdFileName fn =
     TrimLeftByte (if \<not> HasSuffix (ToLower fn) ''.md'' then fn @ ''.md'' else fn) CHR ''/''"

definition UploadMdFileWithToken ::
  "(string \<Rightarrow> bool) \<Rightarrow> CreateContentResp decoder \<Rightarrow> GitHubRepoAPI
     \<Rightarrow> string \<Rightarrow> string \<Rightarrow> string \<Rightarrow> string
     \<Rightarrow> (CreateContentResp option \<times> error option \<times> request list) outcome" where
  "UploadMdFileWithToken urlOK dec r filename content commitMsg0 branch0 =
     (let fn = TrimSpace filename in
      if fn = [] then Return (None, Some (Errorf ''filename is empty'' []), [])
      else
        let fn = mdFileName fn;
            commitMsg = (if commitMsg0 = [] then ''chore: add '' @ fn else commitMsg0);
            branch = (if branch0 = [] then DefaultBranch (repoJSON r) else branch0);
            body = [''message'' \<mapsto> commitMsg, ''content'' \<mapsto> EncodeToString content];
            body = (if branch \<noteq> [] then body(''branch'' \<mapsto> branch) else body);
            reqPath = ''/repos/'' @ PathEscape (OwnerLogin (Owner (repoJSON r))) @ ''/''
                      @ PathEscape (RepoName (repoJSON r)) @ ''/contents/'' @ pathEscapeSegments fn
        in
          (case newReq urlOK (repoAPI r) ''PUT'' reqPath (JSONObject body) of
             Inl err \<Rightarrow> Return (None, Some err, [])
           | Inr req0 \<Rightarrow>
               let req = req0\<lparr>Header := (Header req0)(''Content-Type'' \<mapsto> ''application/json'')\<rparr>;
                   req = (if accessToken (repoAPI r) \<noteq> []
                          then req\<lparr>Header := (Header req)
                                  (''Authorization'' \<mapsto> ''Bearer '' @ accessToken (repoAPI r))\<rparr>
                          else req)
               in
                 (case doJSON dec (repoAPI r) req (Some zeroCreateContentResp) of
                    Panic \<Rightarrow> Panic
                  | Return (Some err, _, sent) \<Rightarrow>
                      (case err of
                         HTTPError code b \<Rightarrow>
                           if code = 422
                           then Return (None,
                                  Some (Errorf ''file %q already exists on branch %q: %s''
                                          [fn, branch, b]), sent)
                           else Return (None, Some err, sent)
                       | _ \<Rightarrow> Return (None, Some err, sent))
                  | Return (None, out, sent) \<Rightarrow> Return (out, None, sent))))"

text \<open>\<^verbatim>\<open>UploadMdFile\<close> keeps the error of the call only.\<close>

definition UploadMdFile ::
  "(string \<Rightarrow> bool) \<Rightarrow> CreateContentResp decoder \<Rightarrow> GitHubRepoAPI \<Rightarrow> string \<Rightarrow> string
     \<Rightarrow> (error option \<times> request list) outcome" where
  "UploadMdFile urlOK dec r filename content =
     (case UploadMdFileWithToken urlOK dec r filename content [] [] of
        Panic \<Rightarrow> Panic
      | Return (_, err, sent) \<Rightarrow> Return (err, sent))"

text \<open>
  The URL and the request of an upload, as \<^verbatim>\<open>UploadMdFileWithToken\<close> builds them from
  the final file name, the content, the commit message and the branch (lemma
  \<open>Upload_unfold\<close> relates them to the function).
\<close>

definition uploadURL :: "GitHubRepoAPI \<Rightarrow> string \<Rightarrow> string" where
  "uploadURL r fn =
     baseURL (repoAPI r) @ ''/repos/'' @ PathEscape (OwnerLogin (Owner (repoJSON r))) @ ''/''
       @ PathEscape (RepoName (repoJSON r)) @ ''/contents/'' @ pathEscapeSegments fn"

definition uploadRequest :: "GitHubRepoAPI \<Rightarrow> string \<Rightarrow> string \<Rightarrow> string \<Rightarrow> string \<Rightarrow> request" where
  "uploadRequest r fn content commitMsg branch =
     \<lparr>Method = ''PUT'', URL = uploadURL r fn,
      Header =
        (let h = [''Accept'' \<mapsto> ''application/vnd.github.v3+json''];
             h = (if userAgent (repoAPI r) \<noteq> [] then h(''User-Agent'' \<mapsto> userAgent (repoAPI r)) else h);
             h = h(''Content-Type'' \<mapsto> ''application/json'')
         in if accessToken (repoAPI r) \<noteq> []
            then h(''Authorization'' \<mapsto> ''Bearer '' @ accessToken (repoAPI r)) else h),
      Payload = JSONObject
        (let body = [''message'' \<mapsto> commitMsg, ''content'' \<mapsto> EncodeToString content]
         in if branch \<noteq> [] then body(''branch'' \<mapsto> branch) else body)\<rparr>"

section \<open>The verification bot (package main)\<close>

subsection \<open>Models\<close>

record GitHubUser =
  UserLogin :: string
  UserID :: int
  UserName :: string
  UserEmail :: string
  AvatarURL :: string

record AuthSession =
  ChatID :: int
  State :: string
  RequestedLogin :: string

text \<open>The global \<^verbatim>\<open>authSessions\<close>, a map from state tokens to sessions.\<close>

type_synonym sessions = "string \<rightharpoonup> AuthSession"

text \<open>
  The constants \<^verbatim>\<open>GITHUB_CLIENT_ID\<close>, \<^verbatim>\<open>GITHUB_CLIENT_SECRET\<close> and \<^verbatim>\<open>REDIRECT_URI\<close>
  are declared outside the files at hand and are taken as parameters.
\<close>

record config =
  GITHUB_CLIENT_ID :: string
  GITHUB_CLIENT_SECRET :: string
  REDIRECT_URI :: string

text \<open>The anonymous struct that \<^verbatim>\<open>exchangeCodeForToken\<close> decodes the token response into.\<close>

record TokenResponse =
  AccessToken :: string
  Scope :: string
  TokenType :: string
  TokenError :: string
  ErrorDesc :: string

text \<open>
  What the process finds around it: what \<^verbatim>\<open>http.Client.Do\<close> does with a request, which
  URLs \<^verbatim>\<open>http.NewRequest\<close> parses, \<^verbatim>\<open>json.Unmarshal\<close> into the token struct and into a
  \<^verbatim>\<open>GitHubUser\<close>, the reading of \<^verbatim>\<open>time.Now().UnixNano()\<close>, the bytes the system's
  random source (\<^verbatim>\<open>crypto/rand\<close>) would deliver, and \<^verbatim>\<open>strings.Map(unicode.ToLower, s)\<close>,
  the map of the Unicode case tables over a string. No function of the bot reads the
  random source.
\<close>

record world =
  clientDo :: Doer
  newRequestOK :: "string \<Rightarrow> bool"
  unmarshalToken :: "string \<Rightarrow> error + TokenResponse"
  unmarshalUser :: "string \<Rightarrow> error + GitHubUser"
  UnixNano :: int
  randomBytes :: string
  mapToLower :: "string \<Rightarrow> string"

text \<open>
  The texts the bot sends, one constructor for each format string of the source with the
  arguments it is filled with, and what the callback writes to the browser.
\<close>

datatype message =
    CheckFailed error
  | UserNotFound string
  | ConfirmPrompt string string
  | AuthorizationFailed
  | UserInfoFailed
  | VerificationMismatch string string
  | OwnershipConfirmed string string string int

datatype page = PlainText string | MismatchPage | SuccessPage string

record reply =
  Status :: int
  Page :: page

text \<open>What a function does to the outside, in order.\<close>

datatype effect = HTTPDo request | BotSend int message

subsection \<open>Utilities\<close>

definition generateState :: "world \<Rightarrow> int \<Rightarrow> string" where
  "generateState w chatID = FormatInt chatID @ ''_'' @ FormatInt (UnixNano w)"

definition emptyIf :: "string \<Rightarrow> string \<Rightarrow> string" where
  "emptyIf s repl = (if TrimSpace s = [] then repl else s)"

text \<open>The em dash that replaces an empty name or e-mail address, in UTF-8.\<close>

definition dash :: string where
  "dash = [CHR 0xE2, CHR 0x80, CHR 0x94]"

text \<open>
  \<^verbatim>\<open>url.QueryEscape\<close>: letters, digits and \<open>- _ . ~\<close> are kept, a space becomes \<open>+\<close>,
  every other byte becomes \<open>%XX\<close>.
\<close>

definition queryEscapeByte :: "char \<Rightarrow> string" where
  "queryEscapeByte c =
     (if c = CHR '' '' then ''+''
      else if c \<in> set ''abcdefghijklmnopqrstuvwxyzABCDEFGHIJKLMNOPQRSTUVWXYZ0123456789-_.~''
      then [c]
      else [CHR ''%'', upperhex ((of_char c :: nat) div 16), upperhex ((of_char c :: nat) mod 16)])"

definition QueryEscape :: "string \<Rightarrow> string" where
  "QueryEscape s = concat (map queryEscapeByte s)"

subsection \<open>Calls to GitHub\<close>

definition checkUserExists :: "world \<Rightarrow> string \<Rightarrow> bool \<times> error option \<times> effect list" where
  "checkUserExists w username =
     (let url = ''https://api.github.com/users/'' @ username in
      if \<not> newRequestOK w url then (False, Some (LibError ''net/url: parse error''), [])
      else
        let req = \<lparr>Method = ''GET'', URL = url,
                   Header = [''Accept'' \<mapsto> ''application/vnd.github.v3+json'',
                             ''User-Agent'' \<mapsto> ''TelegramBot/1.0''],
                   Payload = NoBody\<rparr>
        in
          (case clientDo w req of
             Inl err \<Rightarrow> (False, Some err, [HTTPDo req])
           | Inr resp \<Rightarrow>
               if StatusCode resp = 404 then (False, None, [HTTPDo req])
               else (StatusCode resp = 200, None, [HTTPDo req])))"

text \<open>
  \<^verbatim>\<open>exchangeCodeForToken\<close> returns the token, the scopes and the token type, or an error.
  Its URL is a constant that parses.
\<close>

definition exchangeCodeForToken ::
  "world \<Rightarrow> config \<Rightarrow> string \<Rightarrow> (error + string \<times> string list \<times> string) \<times> effect list" where
  "exchangeCodeForToken w cfg code =
     (let data = [''client_id'' \<mapsto> GITHUB_CLIENT_ID cfg,
                  ''client_secret'' \<mapsto> GITHUB_CLIENT_SECRET cfg,
                  ''code'' \<mapsto> code];
          req = \<lparr>Method = ''POST'', URL = ''https://github.com/login/oauth/access_token'',
                 Header = [''Content-Type'' \<mapsto> ''application/x-www-form-urlencoded'',
                           ''Accept'' \<mapsto> ''application/json''],
                 Payload = FormValues data\<rparr>
      in
        (case clientDo w req of
           Inl err \<Rightarrow> (Inl err, [HTTPDo req])
         | Inr resp \<Rightarrow>
             (case ReadErr resp of
                Some err \<Rightarrow> (Inl err, [HTTPDo req])
              | None \<Rightarrow>
                  (case unmarshalToken w (Body resp) of
                     Inl err \<Rightarrow> (Inl err, [HTTPDo req])
                   | Inr r \<Rightarrow>
                       if TokenError r \<noteq> [] then
                         (if ErrorDesc r \<noteq> []
                          then (Inl (Errorf ''GitHub error: %s (%s)'' [TokenError r, ErrorDesc r]),
                                [HTTPDo req])
                          else (Inl (Errorf ''GitHub error: %s'' [TokenError r]), [HTTPDo req]))
                       else
                         let s = TrimSpace (Scope r);
                             scopeSlice =
                               (if s \<noteq> []
                                then filter (\<lambda>p. p \<noteq> []) (map TrimSpace (Split s CHR '',''))
                                else [])
                         in (Inr (AccessToken r, scopeSlice, TokenType r), [HTTPDo req])))))"

definition getGitHubUser :: "world \<Rightarrow> string \<Rightarrow> (error + GitHubUser) \<times> effect list" where
  "getGitHubUser w token =
     (let req = \<lparr>Method = ''GET'', URL = ''https://api.github.com/user'',
                 Header = [''Authorization'' \<mapsto> ''token '' @ token,
                           ''Accept'' \<mapsto> ''application/vnd.github.v3+json''],
                 Payload = NoBody\<rparr>
      in
        (case clientDo w req of
           Inl err \<Rightarrow> (Inl err, [HTTPDo req])
         | Inr resp \<Rightarrow>
             (case ReadErr resp of
                Some err \<Rightarrow> (Inl err, [HTTPDo req])
              | None \<Rightarrow>
                  (case unmarshalUser w (Body resp) of
                     Inl err \<Rightarrow> (Inl err, [HTTPDo req])
                   | Inr user \<Rightarrow> (Inr user, [HTTPDo req])))))"

subsection \<open>The Telegram flow\<close>

text \<open>
  \<^verbatim>\<open>handleUsernameInput\<close> for a message in chat \<open>chatID\<close>: the new session map and what
  was done. The insertion into the map happens between \<^verbatim>\<open>authMu.Lock()\<close> and
  \<^verbatim>\<open>authMu.Unlock()\<close>.
\<close>

definition handleUsernameInput ::
  "world \<Rightarrow> config \<Rightarrow> sessions \<Rightarrow> int \<Rightarrow> string \<Rightarrow> sessions \<times> effect list" where
  "handleUsernameInput w cfg authSessions chatID username0 =
     (let username = TrimSpace username0 in
      case checkUserExists w username of
        (exists, Some err, fx) \<Rightarrow> (authSessions, fx @ [BotSend chatID (CheckFailed err)])
      | (exists, None, fx) \<Rightarrow>
          if \<not> exists then (authSessions, fx @ [BotSend chatID (UserNotFound username)])
          else
            let state = generateState w chatID;
                authSessions' = authSessions(state \<mapsto>
                   \<lparr>ChatID = chatID, State = state, RequestedLogin = username\<rparr>);
                authURL = ''https://github.com/login/oauth/authorize?client_id=''
                   @ GITHUB_CLIENT_ID cfg @ ''&redirect_uri='' @ QueryEscape (REDIRECT_URI cfg)
                   @ ''&state='' @ state @ ''&scope=user:email''
            in (authSessions', fx @ [BotSend chatID (ConfirmPrompt username authURL)]))"

subsection \<open>The HTTP callback\<close>

text \<open>
  The critical section of \<^verbatim>\<open>handleGitHubCallback\<close>, between \<^verbatim>\<open>authMu.Lock()\<close> and
  \<^verbatim>\<open>authMu.Unlock()\<close>: look the state up and delete it when it is there. The mutex
  makes it one step with respect to every other access to the map.
\<close>

definition takeSession :: "sessions \<Rightarrow> string \<Rightarrow> AuthSession option \<times> sessions" where
  "takeSession authSessions state =
     (case authSessions state of
        Some session \<Rightarrow> (Some session, authSessions(state := None))
      | None \<Rightarrow> (None, authSessions))"

text \<open>
  \<^verbatim>\<open>handleGitHubCallback\<close> from the comparison of the logins on, for a session and the
  user GitHub reports: the reply and the message sent. Both logins go through
  \<^verbatim>\<open>strings.ToLower\<close>.
\<close>

definition compareLogins :: "world \<Rightarrow> AuthSession \<Rightarrow> GitHubUser \<Rightarrow> reply \<times> effect list" where
  "compareLogins w session user =
     (if ToLowerUnicode (mapToLower w) (UserLogin user)
           \<noteq> ToLowerUnicode (mapToLower w) (RequestedLogin session)
      then (\<lparr>Status = 200, Page = MismatchPage\<rparr>,
            [BotSend (ChatID session)
               (VerificationMismatch (RequestedLogin session) (UserLogin user))])
      else (\<lparr>Status = 200, Page = SuccessPage (UserLogin user)\<rparr>,
            [BotSend (ChatID session)
               (OwnershipConfirmed (emptyIf (UserName user) dash) (UserLogin user)
                  (emptyIf (UserEmail user) dash) (UserID user))]))"

text \<open>
  \<^verbatim>\<open>handleGitHubCallback\<close> after the session has been taken: the exchange of the code,
  the fetch of the user and the comparison.
\<close>

definition completeCallback :: "world \<Rightarrow> config \<Rightarrow> AuthSession \<Rightarrow> string \<Rightarrow> reply \<times> effect list" where
  "completeCallback w cfg session code =
     (case exchangeCodeForToken w cfg code of
        (Inl err, fx) \<Rightarrow>
          (\<lparr>Status = 500, Page = PlainText ''Authentication failed''\<rparr>,
           fx @ [BotSend (ChatID session) AuthorizationFailed])
      | (Inr (token, scopeSlice, tokenType), fx) \<Rightarrow>
          (case getGitHubUser w token of
             (Inl err, fx') \<Rightarrow>
               (\<lparr>Status = 500, Page = PlainText ''Failed to get user info''\<rparr>,
                fx @ fx' @ [BotSend (ChatID session) UserInfoFailed])
           | (Inr user, fx') \<Rightarrow>
               (case compareLogins w session user of (r, fx'') \<Rightarrow> (r, fx @ fx' @ fx''))))"

text \<open>
  \<^verbatim>\<open>handleGitHubCallback\<close> for the query parameters \<open>code\<close> and \<open>state\<close>: the new session
  map, the reply written and what was done.
\<close>

definition handleGitHubCallback ::
  "world \<Rightarrow> config \<Rightarrow> sessions \<Rightarrow> string \<Rightarrow> string \<Rightarrow> sessions \<times> reply \<times> effect list" where
  "handleGitHubCallback w cfg authSessions code state =
     (if code = [] \<or> state = []
      then (authSessions, \<lparr>Status = 400, Page = PlainText ''Missing code or state''\<rparr>, [])
      else
        (case takeSession authSessions state of
           (None, authSessions') \<Rightarrow>
             (authSessions', \<lparr>Status = 400, Page = PlainText ''Invalid state''\<rparr>, [])
         | (Some session, authSessions') \<Rightarrow>
             (case completeCallback w cfg session code of
                (r, fx) \<Rightarrow> (authSessions', r, fx))))"

subsection \<open>Callbacks one after another, and callbacks running concurrently\<close>

text \<open>
  \<open>runCallbacks\<close>: a sequence of callbacks handled one after another, each in the world
  it finds; the result is the session map they leave.

  Every request to \<^verbatim>\<open>/callback\<close> runs \<^verbatim>\<open>handleGitHubCallback\<close> in a goroutine of its own.
  Such a callback touches the session map only inside its critical section, so a run of
  several callbacks is an interleaving of two kinds of steps. \<open>enter\<close>: a callback that
  has arrived checks its parameters and runs the critical section (\<open>enterCallback\<close>); it
  is rejected or holds the session it took. \<open>complete\<close>: a callback holding a session
  does the rest (\<open>completeCallback\<close>), in whatever world it finds. Lemma
  \<open>handleGitHubCallback_as_steps\<close> shows that the two steps of one callback, one after
  the other, are \<^verbatim>\<open>handleGitHubCallback\<close>. The runs are those of callbacks alone: no user
  name is submitted, and so no session is inserted, while they run.

  A callback has arrived with its code and state, or holds the session it took under its
  state, or was rejected with a reply, or has finished (after taking the session under
  its state) with a reply and what it did.
\<close>

datatype callback =
    Arrived string string
  | Holding string AuthSession string
  | Rejected reply
  | Finished string reply "effect list"

definition enterCallback :: "sessions \<Rightarrow> string \<Rightarrow> string \<Rightarrow> sessions \<times> callback" where
  "enterCallback authSessions code state =
     (if code = [] \<or> state = []
      then (authSessions, Rejected \<lparr>Status = 400, Page = PlainText ''Missing code or state''\<rparr>)
      else
        (case takeSession authSessions state of
           (None, authSessions') \<Rightarrow>
             (authSessions', Rejected \<lparr>Status = 400, Page = PlainText ''Invalid state''\<rparr>)
         | (Some session, authSessions') \<Rightarrow> (authSessions', Holding state session code)))"

inductive step :: "config \<Rightarrow> sessions \<times> callback list \<Rightarrow> sessions \<times> callback list \<Rightarrow> bool"
  for cfg :: config where
    enter:
      "i < length ts \<Longrightarrow> ts ! i = Arrived code state \<Longrightarrow> enterCallback m code state = (m', t)
       \<Longrightarrow> step cfg (m, ts) (m', ts[i := t])"
  | complete:
      "i < length ts \<Longrightarrow> ts ! i = Holding state session code
       \<Longrightarrow> completeCallback w cfg session code = (r, fx)
       \<Longrightarrow> step cfg (m, ts) (m, ts[i := Finished state r fx])"

definition consumed :: "string \<Rightarrow> callback \<Rightarrow> bool" where
  "consumed t cb =
     (case cb of Holding state _ _ \<Rightarrow> state = t | Finished state _ _ \<Rightarrow> state = t | _ \<Rightarrow> False)"

fun runCallbacks :: "config \<Rightarrow> sessions \<Rightarrow> (world \<times> string \<times> string) list \<Rightarrow> sessions" where
  "runCallbacks cfg m [] = m"
| "runCallbacks cfg m ((w, code, state) # rest) =
     runCallbacks cfg (fst (handleGitHubCallback w cfg m code state)) rest"

text \<open>
  For a token \<open>t\<close>: the number of callbacks that consumed the session stored under \<open>t\<close>,
  plus one while a session is stored under \<open>t\<close>.
\<close>

definition tokenBudget :: "string \<Rightarrow> sessions \<times> callback list \<Rightarrow> nat" where
  "tokenBudget t cfgn =
     length (filter (consumed t) (snd cfgn)) + (if fst cfgn t = None then 0 else 1)"

section \<open>Auxiliary definitions for the statements\<close>

text \<open>The number that a string of decimal digits denotes.\<close>

definition digitVal :: "char \<Rightarrow> nat" where
  "digitVal c = (case indexOf c ''0123456789'' of Some d \<Rightarrow> d | None \<Rightarrow> 0)"

definition decimalValue :: "string \<Rightarrow> nat" where
  "decimalValue s = foldl (\<lambda>a c. 10 * a + digitVal c) 0 s"


subsection \<open>What the transport answers\<close>

text \<open>
  \<open>answers urlOK c method path body resp\<close>: on client \<open>c\<close> the request for \<open>path\<close> is
  built, the client has a transport, and the transport answers that request with the
  response \<open>resp\<close>.
\<close>

definition answers ::
  "(string \<Rightarrow> bool) \<Rightarrow> GitHubAPI \<Rightarrow> string \<Rightarrow> string \<Rightarrow> payload \<Rightarrow> response \<Rightarrow> bool" where
  "answers urlOK c method path body resp =
     (case newReq urlOK c method path body of
        Inl _ \<Rightarrow> False
      | Inr req \<Rightarrow> (case http c of None \<Rightarrow> False | Some d \<Rightarrow> d req = Inr resp))"

subsection \<open>Concrete surroundings for the examples\<close>

text \<open>
  A URL parser that accepts every URL, a JSON decoder that accepts every body and leaves
  the target as it is, a transport that answers every request with one fixed response,
  and a profile of the default client whose login is that of the repository's tests.
\<close>

definition anyURL :: "string \<Rightarrow> bool" where
  "anyURL u = True"

definition keepJSON :: "'j decoder" where
  "keepJSON b j = (None, j)"

definition fixedServer :: "int \<Rightarrow> string \<Rightarrow> Doer" where
  "fixedServer code body req = Inr \<lparr>StatusCode = code, Body = body, ReadErr = None\<rparr>"

definition demoProfile :: "Doer \<Rightarrow> GitHubProfileAPI" where
  "demoProfile net =
     \<lparr>profileAPI = NewDefaultGitHubAPI net,
      profileJSON = zeroProfileJSON\<lparr>Login := ''DilemaFixer''\<rparr>\<rparr>"

text \<open>A repository of that profile, as a fetch would decode it, on the default client.\<close>

definition demoRepo :: "Doer \<Rightarrow> GitHubRepoAPI" where
  "demoRepo net =
     \<lparr>repoAPI = NewDefaultGitHubAPI net,
      repoJSON = zeroRepoJSON\<lparr>RepoName := ''Annuum'',
                   Owner := \<lparr>OwnerLogin = ''DilemaFixer'', OwnerID = 109586143\<rparr>,
                   DefaultBranch := ''main''\<rparr>\<rparr>"

text \<open>A JSON decoder that rejects every body.\<close>

definition failJSON :: "'j decoder" where
  "failJSON b j = (Some (LibError ''invalid character''), j)"

text \<open>
  Worlds for the examples. \<open>kelvinAte\<close> is the Kelvin sign U+212A, in UTF-8, followed
  by \<open>ate\<close>; the Unicode case tables map the Kelvin sign to \<open>k\<close>, and \<open>demoMapLower\<close> is
  their map on that string. In \<open>demoWorld\<close> the clock reads \<open>now\<close>, the random source
  would deliver \<open>rnd\<close> and no response decodes. In \<open>okWorld login\<close> the token exchange
  succeeds and GitHub reports the user \<open>login\<close>. A configuration, and a session map with
  one pending session of chat 42 for the login \<open>foo\<close>.
\<close>

definition kelvinAte :: string where
  "kelvinAte = [CHR 0xE2, CHR 0x84, CHR 0xAA] @ ''ate''"

definition demoMapLower :: "string \<Rightarrow> string" where
  "demoMapLower s = (if s = kelvinAte then ''kate'' else s)"

definition demoWorld :: "int \<Rightarrow> string \<Rightarrow> world" where
  "demoWorld now rnd =
     \<lparr>clientDo = fixedServer 200 [], newRequestOK = anyURL,
      unmarshalToken = (\<lambda>b. Inl (LibError ''unexpected end of JSON input'')),
      unmarshalUser = (\<lambda>b. Inl (LibError ''unexpected end of JSON input'')),
      UnixNano = now, randomBytes = rnd, mapToLower = demoMapLower\<rparr>"

definition okWorld :: "string \<Rightarrow> world" where
  "okWorld login =
     \<lparr>clientDo = fixedServer 200 ''{}'', newRequestOK = anyURL,
      unmarshalToken = (\<lambda>b. Inr \<lparr>AccessToken = ''gho_x'', Scope = ''user:email'',
                                 TokenType = ''bearer'', TokenError = [], ErrorDesc = []\<rparr>),
      unmarshalUser = (\<lambda>b. Inr \<lparr>UserLogin = login, UserID = 7, UserName = [], UserEmail = [],
                                AvatarURL = []\<rparr>),
      UnixNano = 1700000000000000000, randomBytes = [], mapToLower = demoMapLower\<rparr>"

definition demoConfig :: config where
  "demoConfig = \<lparr>GITHUB_CLIENT_ID = ''Iv1.abc'', GITHUB_CLIENT_SECRET = ''s3cret'',
                 REDIRECT_URI = ''http://localhost:8080/callback''\<rparr>"

definition demoSession :: AuthSession where
  "demoSession = \<lparr>ChatID = 42, State = ''42_1700000000000000000'', RequestedLogin = ''foo''\<rparr>"

definition demoSessions :: sessions where
  "demoSessions = [''42_1700000000000000000'' \<mapsto> demoSession]"

text \<open>The same, with the pending session asking for the login \<open>kelvinAte\<close>.\<close>

definition kelvinSession :: AuthSession where
  "kelvinSession =
     \<lparr>ChatID = 42, State = ''42_1700000000000000000'', RequestedLogin = kelvinAte\<rparr>"

definition kelvinSessions :: sessions where
  "kelvinSessions = [''42_1700000000000000000'' \<mapsto> kelvinSession]"


section \<open>Verified properties\<close>

subsection \<open>The client: general facts\<close>

lemma answersE:
  assumes "answers urlOK c method path body resp"
  obtains req d where "newReq urlOK c method path body = Inr req" "http c = Some d" "d req = Inr resp"
  using assms unfolding answers_def by (auto split: sum.splits option.splits)

lemma doJSON_non2xx:
  assumes "http c = Some d" "d req = Inr resp" "StatusCode resp < 200 \<or> 300 \<le> StatusCode resp"
  shows "doJSON um c req out = Return (Some (HTTPError (StatusCode resp) (take (2 ^ 20) (Body resp))), out, [req])"
  using assms by (auto simp: doJSON_def Let_def)

lemma doJSON_2xx_nothing_to_decode:
  assumes "http c = Some d" "d req = Inr resp" "200 \<le> StatusCode resp" "StatusCode resp < 300"
    "out = None \<or> take (2 ^ 20) (Body resp) = []"
  shows "doJSON um c req out = Return (None, out, [req])"
  using assms by (auto simp: doJSON_def Let_def split: option.splits)

lemmas demo_defs = anyURL_def keepJSON_def fixedServer_def demoProfile_def
  NewDefaultGitHubAPI_def newReq_def answers_def

lemma TrimSpace_ghost: "TrimSpace '' ghost '' = ''ghost''"
  by (simp add: TrimSpace_def trimLeading.simps leadingRuneLen_def spaceRunes_def HasPrefix_def)


lemma doJSON_error_origin:
  assumes "http c = Some d" "doJSON um c req out = Return (Some e, out', sent)"
  shows "d req = Inl e
       \<or> (\<exists>resp. d req = Inr resp \<and> (StatusCode resp < 200 \<or> 300 \<le> StatusCode resp)
             \<and> e = HTTPError (StatusCode resp) (take (2 ^ 20) (Body resp)))
       \<or> (\<exists>resp v. d req = Inr resp \<and> 200 \<le> StatusCode resp \<and> StatusCode resp < 300
             \<and> take (2 ^ 20) (Body resp) \<noteq> [] \<and> out = Some v
             \<and> fst (um (take (2 ^ 20) (Body resp)) v) = Some e)"
  using assms
  by (auto simp: doJSON_def Let_def split: sum.splits option.splits if_splits prod.splits)

subsection \<open>Responses with status 404\<close>

text \<open>
  C7. A profile or repository fetch whose request is answered with status 404 returns a
  typed not-found error of its resource kind that carries the requested identifier: the
  user name as requested (trimmed of white space), the repository name, or the numeric id
  in decimal. The existence checks return false and no error for a 404.
\<close>

theorem not_found_is_typed:
  assumes "StatusCode resp = 404"
  shows
   "(TrimSpace u \<noteq> [] \<and> answers urlOK c ''GET'' (''/users/'' @ PathEscape (TrimSpace u)) NoBody resp \<longrightarrow>
       (\<exists>sent. GetUserIfExists urlOK pdec c u
                 = Return (None, Some (ProfileNotFoundError (TrimSpace u)), sent))
     \<and> (\<exists>sent. CheckUserExists urlOK c u = Return (False, None, sent)))
  \<and> (answers urlOK c ''GET'' (''/user/'' @ PathEscape (FormatInt i)) NoBody resp \<longrightarrow>
       (\<exists>sent. GetUserByIdIfExist urlOK pdec c i
                 = Return (None, Some (ProfileNotFoundError (FormatInt i)), sent))
     \<and> (\<exists>sent. CheckUserExistsById urlOK c i = Return (False, None, sent)))
  \<and> (answers urlOK c ''GET'' (''/repositories/'' @ PathEscape (FormatInt i)) NoBody resp \<longrightarrow>
       (\<exists>sent. GetRepoByIdIfExist urlOK rdec c i
                 = Return (None, Some (RepoNotFoundError (FormatInt i)), sent))
     \<and> (\<exists>sent. CheckIsRepoExistsById urlOK rdec c i = Return (False, None, sent)))
  \<and> (answers urlOK (profileAPI p) ''GET'' (''/repos/'' @ Login (profileJSON p) @ ''/'' @ name) NoBody resp \<longrightarrow>
       (\<exists>sent. GetRepoIfExist urlOK rdec p name
                 = Return (None, Some (RepoNotFoundError name), sent))
     \<and> (\<exists>sent. IsRepoExist urlOK rdec p name = Return (False, None, sent)))"
proof -
  have st: "StatusCode resp < 200 \<or> 300 \<le> StatusCode resp"
    using assms by simp
  have users: "\<exists>sent. GetUserIfExists urlOK pdec c u
                 = Return (None, Some (ProfileNotFoundError (TrimSpace u)), sent)"
     "\<exists>sent. CheckUserExists urlOK c u = Return (False, None, sent)"
    if "TrimSpace u \<noteq> []" "answers urlOK c ''GET'' (''/users/'' @ PathEscape (TrimSpace u)) NoBody resp"
    using that assms
    by (auto elim!: answersE simp: GetUserIfExists_def CheckUserExists_def Let_def
        doJSON_non2xx [OF _ _ st] NewProfileNotFoundError_def)
  have user: "\<exists>sent. GetUserByIdIfExist urlOK pdec c i
                 = Return (None, Some (ProfileNotFoundError (FormatInt i)), sent)"
     "\<exists>sent. CheckUserExistsById urlOK c i = Return (False, None, sent)"
    if "answers urlOK c ''GET'' (''/user/'' @ PathEscape (FormatInt i)) NoBody resp"
    using that assms
    by (auto elim!: answersE simp: GetUserByIdIfExist_def CheckUserExistsById_def
        doJSON_non2xx [OF _ _ st] NewProfileNotFoundError_def)
  have repoid: "\<exists>sent. GetRepoByIdIfExist urlOK rdec c i
                 = Return (None, Some (RepoNotFoundError (FormatInt i)), sent)"
     "\<exists>sent. CheckIsRepoExistsById urlOK rdec c i = Return (False, None, sent)"
    if "answers urlOK c ''GET'' (''/repositories/'' @ PathEscape (FormatInt i)) NoBody resp"
    using that assms
    by (auto elim!: answersE simp: GetRepoByIdIfExist_def CheckIsRepoExistsById_def
        doJSON_non2xx [OF _ _ st] NewRepoNotFoundError_def)
  have repo: "\<exists>sent. GetRepoIfExist urlOK rdec p name
                 = Return (None, Some (RepoNotFoundError name), sent)"
     "\<exists>sent. IsRepoExist urlOK rdec p name = Return (False, None, sent)"
    if "answers urlOK (profileAPI p) ''GET'' (''/repos/'' @ Login (profileJSON p) @ ''/'' @ name) NoBody resp"
    using that assms
    by (auto elim!: answersE simp: GetRepoIfExist_def IsRepoExist_def
        doJSON_non2xx [OF _ _ st] NewRepoNotFoundError_def)
  show ?thesis
    using users user repoid repo by blast
qed

theorem not_found_is_typed_witness:
  "StatusCode \<lparr>StatusCode = 404, Body = ''{}'', ReadErr = None\<rparr> = 404
   \<and> TrimSpace '' ghost '' \<noteq> []
   \<and> answers anyURL (NewDefaultGitHubAPI (fixedServer 404 ''{}'')) ''GET''
        (''/users/'' @ PathEscape (TrimSpace '' ghost '')) NoBody
        \<lparr>StatusCode = 404, Body = ''{}'', ReadErr = None\<rparr>
   \<and> (\<exists>sent. GetUserIfExists anyURL keepJSON (NewDefaultGitHubAPI (fixedServer 404 ''{}'')) '' ghost ''
          = Return (None, Some (ProfileNotFoundError ''ghost''), sent))
   \<and> (\<exists>sent. CheckUserExists anyURL (NewDefaultGitHubAPI (fixedServer 404 ''{}'')) '' ghost ''
          = Return (False, None, sent))
   \<and> (\<exists>sent. GetUserByIdIfExist anyURL keepJSON (NewDefaultGitHubAPI (fixedServer 404 ''{}'')) 0
          = Return (None, Some (ProfileNotFoundError ''0''), sent))
   \<and> (\<exists>sent. CheckUserExistsById anyURL (NewDefaultGitHubAPI (fixedServer 404 ''{}'')) 0
          = Return (False, None, sent))
   \<and> (\<exists>sent. GetRepoByIdIfExist anyURL keepJSON (NewDefaultGitHubAPI (fixedServer 404 ''{}'')) 0
          = Return (None, Some (RepoNotFoundError ''0''), sent))
   \<and> (\<exists>sent. CheckIsRepoExistsById anyURL keepJSON (NewDefaultGitHubAPI (fixedServer 404 ''{}'')) 0
          = Return (False, None, sent))
   \<and> (\<exists>sent. GetRepoIfExist anyURL keepJSON (demoProfile (fixedServer 404 ''{}'')) ''labyba''
          = Return (None, Some (RepoNotFoundError ''labyba''), sent))
   \<and> (\<exists>sent. IsRepoExist anyURL keepJSON (demoProfile (fixedServer 404 ''{}'')) ''labyba''
          = Return (False, None, sent))"
proof -
  let ?resp = "\<lparr>StatusCode = 404, Body = ''{}'', ReadErr = None\<rparr>"
  let ?c = "NewDefaultGitHubAPI (fixedServer 404 ''{}'')"
  have st: "StatusCode ?resp = 404" by simp
  have fi: "FormatInt 0 = ''0''"
    by (simp add: FormatInt_def digits10.simps digitChar_def)
  have a: "answers anyURL ?c ''GET'' path NoBody ?resp" for path
    by (simp add: demo_defs)
  have b: "answers anyURL (profileAPI (demoProfile (fixedServer 404 ''{}''))) ''GET'' path NoBody ?resp" for path
    by (simp add: demo_defs)
  show ?thesis
    using not_found_is_typed [OF st, of "'' ghost ''" anyURL ?c keepJSON 0 keepJSON
        "demoProfile (fixedServer 404 ''{}'')" "''labyba''"] a b
    by (simp add: TrimSpace_ghost fi)
qed


subsection \<open>Other responses outside 2xx\<close>

text \<open>
  How the lookups that report errors behave: a response outside 2xx other than 404 comes
  back as the \<open>HTTPError\<close> with the status code and the body read.
\<close>

lemma other_lookups_return_HTTPError:
  assumes "StatusCode resp < 200 \<or> 300 \<le> StatusCode resp" "StatusCode resp \<noteq> 404"
  shows
   "TrimSpace u \<noteq> [] \<Longrightarrow> answers urlOK c ''GET'' (''/users/'' @ PathEscape (TrimSpace u)) NoBody resp \<Longrightarrow>
       (\<exists>sent. GetUserIfExists urlOK pdec c u
                 = Return (None, Some (HTTPError (StatusCode resp) (take (2 ^ 20) (Body resp))), sent))
     \<and> (\<exists>sent. CheckUserExists urlOK c u
                 = Return (False, Some (HTTPError (StatusCode resp) (take (2 ^ 20) (Body resp))), sent))"
   "answers urlOK c ''GET'' (''/user/'' @ PathEscape (FormatInt i)) NoBody resp \<Longrightarrow>
       (\<exists>sent. GetUserByIdIfExist urlOK pdec c i
                 = Return (None, Some (HTTPError (StatusCode resp) (take (2 ^ 20) (Body resp))), sent))
     \<and> (\<exists>sent. CheckUserExistsById urlOK c i
                 = Return (False, Some (HTTPError (StatusCode resp) (take (2 ^ 20) (Body resp))), sent))"
   "answers urlOK c ''GET'' (''/repositories/'' @ PathEscape (FormatInt i)) NoBody resp \<Longrightarrow>
       (\<exists>sent. GetRepoByIdIfExist urlOK rdec c i
                 = Return (None, Some (HTTPError (StatusCode resp) (take (2 ^ 20) (Body resp))), sent))"
  using assms
  by (auto elim!: answersE simp: GetUserIfExists_def CheckUserExists_def GetUserByIdIfExist_def
        CheckUserExistsById_def GetRepoByIdIfExist_def Let_def doJSON_non2xx [OF _ _ assms(1)])


text \<open>
  C1. The claim is that every lookup answered with a status outside 2xx other than 404
  returns the typed HTTP error. The three repository lookups do not: for such a response
  \<^verbatim>\<open>CheckIsRepoExistsById\<close> returns true and no error, \<^verbatim>\<open>IsRepoExist\<close> returns false
  and no error, and \<^verbatim>\<open>GetRepoIfExist\<close> returns no repository and no error.
\<close>

theorem repo_lookups_swallow_HTTP_errors:
  assumes "StatusCode resp < 200 \<or> 300 \<le> StatusCode resp" "StatusCode resp \<noteq> 404"
  shows
   "(answers urlOK c ''GET'' (''/repositories/'' @ PathEscape (FormatInt i)) NoBody resp \<longrightarrow>
       (\<exists>sent. CheckIsRepoExistsById urlOK rdec c i = Return (True, None, sent)))
  \<and> (answers urlOK (profileAPI p) ''GET'' (''/repos/'' @ Login (profileJSON p) @ ''/'' @ name) NoBody resp \<longrightarrow>
       (\<exists>sent. IsRepoExist urlOK rdec p name = Return (False, None, sent))
     \<and> (\<exists>sent. GetRepoIfExist urlOK rdec p name = Return (None, None, sent)))"
  using assms
  by (auto elim!: answersE simp: GetRepoIfExist_def IsRepoExist_def CheckIsRepoExistsById_def
        doJSON_non2xx [OF _ _ assms(1)])

theorem repo_lookups_swallow_HTTP_errors_witness:
  "(\<exists>sent. CheckIsRepoExistsById anyURL keepJSON (NewDefaultGitHubAPI (fixedServer 500 ''boom'')) 984280187
       = Return (True, None, sent))
   \<and> (\<exists>sent. IsRepoExist anyURL keepJSON (demoProfile (fixedServer 500 ''boom'')) ''Annuum''
       = Return (False, None, sent))
   \<and> (\<exists>sent. GetRepoIfExist anyURL keepJSON (demoProfile (fixedServer 500 ''boom'')) ''Annuum''
       = Return (None, None, sent))"
proof -
  let ?resp = "\<lparr>StatusCode = 500, Body = ''boom'', ReadErr = None\<rparr>"
  have st: "StatusCode ?resp < 200 \<or> 300 \<le> StatusCode ?resp" "StatusCode ?resp \<noteq> 404"
    by simp_all
  have a: "answers anyURL (NewDefaultGitHubAPI (fixedServer 500 ''boom'')) ''GET'' path NoBody ?resp" for path
    by (simp add: demo_defs)
  have b: "answers anyURL (profileAPI (demoProfile (fixedServer 500 ''boom''))) ''GET'' path NoBody ?resp" for path
    by (simp add: demo_defs)
  show ?thesis
    using repo_lookups_swallow_HTTP_errors [OF st, of anyURL "NewDefaultGitHubAPI (fixedServer 500 ''boom'')"
        984280187 keepJSON "demoProfile (fixedServer 500 ''boom'')" "''Annuum''"] a b
    by simp
qed

subsection \<open>Responses with status 2xx\<close>

text \<open>
  C10. For a 2xx response \<^verbatim>\<open>doJSON\<close> returns success without decoding when the caller
  gave no decode target or the body (capped at 1 MiB) is empty: success is returned
  whatever the decoder is. An error returned by \<^verbatim>\<open>doJSON\<close> is the transport's error, the
  \<open>HTTPError\<close> of a response outside 2xx, or the decoder's error on the non-empty body of
  a 2xx response. A fetch answered by a 2xx response with an empty body succeeds with
  the zero-valued resource object.
\<close>

theorem doJSON_skips_decoding:
   "(http c = Some d \<and> d req = Inr resp \<and> 200 \<le> StatusCode resp \<and> StatusCode resp < 300
       \<and> (out = None \<or> take (2 ^ 20) (Body resp) = []) \<longrightarrow>
       (\<forall>um. doJSON um c req out = Return (None, out, [req])))
  \<and> (http c = Some d \<and> doJSON um c req out = Return (Some e, out', sent) \<longrightarrow>
       d req = Inl e
       \<or> (\<exists>resp. d req = Inr resp \<and> (StatusCode resp < 200 \<or> 300 \<le> StatusCode resp)
             \<and> e = HTTPError (StatusCode resp) (take (2 ^ 20) (Body resp)))
       \<or> (\<exists>resp v. d req = Inr resp \<and> 200 \<le> StatusCode resp \<and> StatusCode resp < 300
             \<and> take (2 ^ 20) (Body resp) \<noteq> [] \<and> out = Some v
             \<and> fst (um (take (2 ^ 20) (Body resp)) v) = Some e))
  \<and> (200 \<le> StatusCode resp \<and> StatusCode resp < 300 \<and> Body resp = [] \<and> TrimSpace u \<noteq> []
       \<and> answers urlOK c ''GET'' (''/users/'' @ PathEscape (TrimSpace u)) NoBody resp \<longrightarrow>
       (\<exists>sent. GetUserIfExists urlOK pdec c u
          = Return (Some (zeroProfile\<lparr>profileAPI := applyFrom zeroGitHubAPI c\<rparr>), None, sent)))
  \<and> (200 \<le> StatusCode resp \<and> StatusCode resp < 300 \<and> Body resp = []
       \<and> answers urlOK c ''GET'' (''/user/'' @ PathEscape (FormatInt i)) NoBody resp \<longrightarrow>
       (\<exists>sent. GetUserByIdIfExist urlOK pdec c i
          = Return (Some (zeroProfile\<lparr>profileAPI := applyFrom zeroGitHubAPI c\<rparr>), None, sent)))
  \<and> (200 \<le> StatusCode resp \<and> StatusCode resp < 300 \<and> Body resp = []
       \<and> answers urlOK c ''GET'' (''/repositories/'' @ PathEscape (FormatInt i)) NoBody resp \<longrightarrow>
       (\<exists>sent. GetRepoByIdIfExist urlOK rdec c i = Return (Some zeroRepo, None, sent)))
  \<and> (200 \<le> StatusCode resp \<and> StatusCode resp < 300 \<and> Body resp = []
       \<and> answers urlOK (profileAPI p) ''GET'' (''/repos/'' @ Login (profileJSON p) @ ''/'' @ name) NoBody resp \<longrightarrow>
       (\<exists>sent. GetRepoIfExist urlOK rdec p name = Return (Some zeroRepo, None, sent)))"
proof -
  have users: "\<exists>sent. GetUserIfExists urlOK pdec c u
          = Return (Some (zeroProfile\<lparr>profileAPI := applyFrom zeroGitHubAPI c\<rparr>), None, sent)"
    if "200 \<le> StatusCode resp" "StatusCode resp < 300" "Body resp = []" "TrimSpace u \<noteq> []"
       "answers urlOK c ''GET'' (''/users/'' @ PathEscape (TrimSpace u)) NoBody resp"
    using that
    by (auto elim!: answersE simp: GetUserIfExists_def Let_def doJSON_2xx_nothing_to_decode zeroProfile_def)
  have user: "\<exists>sent. GetUserByIdIfExist urlOK pdec c i
          = Return (Some (zeroProfile\<lparr>profileAPI := applyFrom zeroGitHubAPI c\<rparr>), None, sent)"
    if "200 \<le> StatusCode resp" "StatusCode resp < 300" "Body resp = []"
       "answers urlOK c ''GET'' (''/user/'' @ PathEscape (FormatInt i)) NoBody resp"
    using that
    by (auto elim!: answersE simp: GetUserByIdIfExist_def doJSON_2xx_nothing_to_decode zeroProfile_def)
  have repoid: "\<exists>sent. GetRepoByIdIfExist urlOK rdec c i = Return (Some zeroRepo, None, sent)"
    if "200 \<le> StatusCode resp" "StatusCode resp < 300" "Body resp = []"
       "answers urlOK c ''GET'' (''/repositories/'' @ PathEscape (FormatInt i)) NoBody resp"
    using that
    by (auto elim!: answersE simp: GetRepoByIdIfExist_def doJSON_2xx_nothing_to_decode)
  have repo: "\<exists>sent. GetRepoIfExist urlOK rdec p name = Return (Some zeroRepo, None, sent)"
    if "200 \<le> StatusCode resp" "StatusCode resp < 300" "Body resp = []"
       "answers urlOK (profileAPI p) ''GET'' (''/repos/'' @ Login (profileJSON p) @ ''/'' @ name) NoBody resp"
    using that
    by (auto elim!: answersE simp: GetRepoIfExist_def doJSON_2xx_nothing_to_decode)
  have origin: "d req = Inl e
       \<or> (\<exists>resp. d req = Inr resp \<and> (StatusCode resp < 200 \<or> 300 \<le> StatusCode resp)
             \<and> e = HTTPError (StatusCode resp) (take (2 ^ 20) (Body resp)))
       \<or> (\<exists>resp v. d req = Inr resp \<and> 200 \<le> StatusCode resp \<and> StatusCode resp < 300
             \<and> take (2 ^ 20) (Body resp) \<noteq> [] \<and> out = Some v
             \<and> fst (um (take (2 ^ 20) (Body resp)) v) = Some e)"
    if "http c = Some d \<and> doJSON um c req out = Return (Some e, out', sent)"
    using doJSON_error_origin [of c d um req out e out' sent] that by simp
  show ?thesis
  proof (intro conjI impI allI)
    fix um' :: "'a decoder"
    assume "http c = Some d \<and> d req = Inr resp \<and> 200 \<le> StatusCode resp \<and> StatusCode resp < 300
       \<and> (out = None \<or> take (2 ^ 20) (Body resp) = [])"
    then show "doJSON um' c req out = Return (None, out, [req])"
      using doJSON_2xx_nothing_to_decode [of c d req resp out um'] by simp
  qed (use origin users user repoid repo in simp_all)
qed

theorem doJSON_skips_decoding_witness:
  "http (NewDefaultGitHubAPI (fixedServer 204 [])) = Some (fixedServer 204 [])
   \<and> fixedServer 204 [] \<lparr>Method = ''GET'', URL = ''u'', Header = Map.empty, Payload = NoBody\<rparr>
       = Inr \<lparr>StatusCode = 204, Body = [], ReadErr = None\<rparr>
   \<and> doJSON failJSON (NewDefaultGitHubAPI (fixedServer 204 []))
        \<lparr>Method = ''GET'', URL = ''u'', Header = Map.empty, Payload = NoBody\<rparr> (Some zeroRepo)
       = Return (None, Some zeroRepo,
                 [\<lparr>Method = ''GET'', URL = ''u'', Header = Map.empty, Payload = NoBody\<rparr>])
   \<and> doJSON failJSON (NewDefaultGitHubAPI (fixedServer 200 ''{''))
        \<lparr>Method = ''GET'', URL = ''u'', Header = Map.empty, Payload = NoBody\<rparr> (Some zeroRepo)
       = Return (Some (LibError ''invalid character''), Some zeroRepo,
                 [\<lparr>Method = ''GET'', URL = ''u'', Header = Map.empty, Payload = NoBody\<rparr>])
   \<and> TrimSpace '' ghost '' \<noteq> []
   \<and> answers anyURL (NewDefaultGitHubAPI (fixedServer 204 [])) ''GET''
        (''/users/'' @ PathEscape (TrimSpace '' ghost '')) NoBody
        \<lparr>StatusCode = 204, Body = [], ReadErr = None\<rparr>
   \<and> (\<exists>sent. GetUserIfExists anyURL failJSON (NewDefaultGitHubAPI (fixedServer 204 [])) '' ghost ''
          = Return (Some (zeroProfile\<lparr>profileAPI :=
                applyFrom zeroGitHubAPI (NewDefaultGitHubAPI (fixedServer 204 []))\<rparr>), None, sent))
   \<and> (\<exists>sent. GetUserByIdIfExist anyURL failJSON (NewDefaultGitHubAPI (fixedServer 204 [])) 7
          = Return (Some (zeroProfile\<lparr>profileAPI :=
                applyFrom zeroGitHubAPI (NewDefaultGitHubAPI (fixedServer 204 []))\<rparr>), None, sent))
   \<and> (\<exists>sent. GetRepoByIdIfExist anyURL failJSON (NewDefaultGitHubAPI (fixedServer 204 [])) 7
          = Return (Some zeroRepo, None, sent))
   \<and> (\<exists>sent. GetRepoIfExist anyURL failJSON (demoProfile (fixedServer 204 [])) ''Annuum''
          = Return (Some zeroRepo, None, sent))"
proof -
  let ?resp = "\<lparr>StatusCode = 204, Body = [], ReadErr = None\<rparr>"
  let ?c = "NewDefaultGitHubAPI (fixedServer 204 [])"
  let ?req = "\<lparr>Method = ''GET'', URL = ''u'', Header = Map.empty, Payload = NoBody\<rparr>"
  have a: "answers anyURL ?c ''GET'' path NoBody ?resp" for path
    by (simp add: demo_defs)
  have b: "answers anyURL (profileAPI (demoProfile (fixedServer 204 []))) ''GET'' path NoBody ?resp" for path
    by (simp add: demo_defs)
  have c: "doJSON failJSON (NewDefaultGitHubAPI (fixedServer 200 ''{'')) ?req (Some zeroRepo)
       = Return (Some (LibError ''invalid character''), Some zeroRepo, [?req])"
    by (simp add: doJSON_def demo_defs failJSON_def)
  have d: "http ?c = Some (fixedServer 204 [])" "fixedServer 204 [] ?req = Inr ?resp"
    by (simp_all add: demo_defs)
  show ?thesis
    using doJSON_skips_decoding [of ?c "fixedServer 204 []" ?req ?resp "Some zeroRepo"
        failJSON "LibError ''invalid character''" "Some zeroRepo" "[?req]"
        "'' ghost ''" anyURL failJSON 7 failJSON "demoProfile (fixedServer 204 [])" "''Annuum''"]
      a b c d
    by (simp add: TrimSpace_ghost)
qed

subsection \<open>The client configuration of fetched resource objects\<close>

lemma doJSON_intoRepo_keeps_client:
  assumes "doJSON (intoRepo dec) c req (Some r0) = Return (e, Some r, sent)"
  shows "repoAPI r = repoAPI r0"
  using assms
  by (auto simp: doJSON_def intoRepo_def Let_def split: sum.splits option.splits if_splits prod.splits)

lemma doJSON_intoProfile_keeps_client:
  assumes "doJSON (intoProfile dec) c req (Some p0) = Return (e, Some p, sent)"
  shows "profileAPI p = profileAPI p0"
  using assms
  by (auto simp: doJSON_def intoProfile_def Let_def split: sum.splits option.splits if_splits prod.splits)

text \<open>
  A fetched profile carries the transport, the OAuth application, the base URL, the user
  agent and the timeout of the client that fetched it (\<^verbatim>\<open>applyFrom\<close>).
\<close>

lemma fetched_profile_carries_client:
  assumes "GetUserIfExists urlOK pdec c u = Return (Some q, None, sent)
         \<or> GetUserByIdIfExist urlOK pdec c i = Return (Some q, None, sent)"
  shows "http (profileAPI q) = http c \<and> oAuth (profileAPI q) = oAuth c
       \<and> baseURL (profileAPI q) = baseURL c \<and> userAgent (profileAPI q) = userAgent c
       \<and> timeout (profileAPI q) = timeout c"
  using assms
  by (auto simp: GetUserIfExists_def GetUserByIdIfExist_def Let_def applyFrom_def
      split: sum.splits outcome.splits option.splits error.splits if_splits)

text \<open>
  C4. The claim is that every fetched profile and repository carries the configuration
  of the client that produced it. A repository returned by \<^verbatim>\<open>GetRepoByIdIfExist\<close> or
  \<^verbatim>\<open>GetRepoIfExist\<close> does not: its embedded client is the zero value, with an empty base
  URL and no transport, whatever the producing client is.
\<close>

theorem fetched_repo_has_zero_client:
  "(GetRepoByIdIfExist urlOK rdec c i = Return (Some r, None, sent) \<longrightarrow> repoAPI r = zeroGitHubAPI)
   \<and> (GetRepoIfExist urlOK rdec p name = Return (Some r', None, sent') \<longrightarrow> repoAPI r' = zeroGitHubAPI)"
proof -
  have z: "repoAPI zeroRepo = zeroGitHubAPI"
    by (simp add: zeroRepo_def)
  have "repoAPI r = zeroGitHubAPI" if "GetRepoByIdIfExist urlOK rdec c i = Return (Some r, None, sent)"
    using that doJSON_intoRepo_keeps_client [of rdec c _ zeroRepo None r] z
    by (auto simp: GetRepoByIdIfExist_def split: sum.splits outcome.splits option.splits error.splits if_splits)
  moreover have "repoAPI r' = zeroGitHubAPI"
    if "GetRepoIfExist urlOK rdec p name = Return (Some r', None, sent')"
    using that doJSON_intoRepo_keeps_client [of rdec "profileAPI p" _ zeroRepo None r'] z
    by (auto simp: GetRepoIfExist_def split: sum.splits outcome.splits option.splits error.splits if_splits)
  ultimately show ?thesis by blast
qed

theorem fetched_repo_has_zero_client_witness:
  "GetRepoByIdIfExist anyURL keepJSON (NewDefaultGitHubAPI (fixedServer 200 ''{}'')) 984280187
     = Return (Some zeroRepo, None,
        [\<lparr>Method = ''GET'', URL = ''https://api.github.com/repositories/984280187'',
          Header = [''Accept'' \<mapsto> ''application/vnd.github.v3+json'', ''User-Agent'' \<mapsto> ''githubapi/1.0''],
          Payload = NoBody\<rparr>])
   \<and> GetRepoIfExist anyURL keepJSON (demoProfile (fixedServer 200 ''{}'')) ''Annuum''
     = Return (Some zeroRepo, None,
        [\<lparr>Method = ''GET'', URL = ''https://api.github.com/repos/DilemaFixer/Annuum'',
          Header = [''Accept'' \<mapsto> ''application/vnd.github.v3+json'', ''User-Agent'' \<mapsto> ''githubapi/1.0''],
          Payload = NoBody\<rparr>])
   \<and> repoAPI zeroRepo = zeroGitHubAPI
   \<and> baseURL (repoAPI zeroRepo) \<noteq> baseURL (NewDefaultGitHubAPI (fixedServer 200 ''{}''))
   \<and> http (repoAPI zeroRepo) = None
   \<and> http (NewDefaultGitHubAPI (fixedServer 200 ''{}'')) = Some (fixedServer 200 ''{}'')"
proof -
  have fi: "FormatInt 984280187 = ''984280187''"
    by (simp add: FormatInt_def digits10.simps digitChar_def)
  have pe: "PathEscape ''984280187'' = ''984280187''"
    by (simp add: PathEscape_def escapeByte_def shouldEscape_def)
  have a: "GetRepoByIdIfExist anyURL keepJSON (NewDefaultGitHubAPI (fixedServer 200 ''{}'')) 984280187
     = Return (Some zeroRepo, None,
        [\<lparr>Method = ''GET'', URL = ''https://api.github.com/repositories/984280187'',
          Header = [''Accept'' \<mapsto> ''application/vnd.github.v3+json'', ''User-Agent'' \<mapsto> ''githubapi/1.0''],
          Payload = NoBody\<rparr>])"
    by (simp add: GetRepoByIdIfExist_def fi pe doJSON_def demo_defs intoRepo_def)
  have b: "GetRepoIfExist anyURL keepJSON (demoProfile (fixedServer 200 ''{}'')) ''Annuum''
     = Return (Some zeroRepo, None,
        [\<lparr>Method = ''GET'', URL = ''https://api.github.com/repos/DilemaFixer/Annuum'',
          Header = [''Accept'' \<mapsto> ''application/vnd.github.v3+json'', ''User-Agent'' \<mapsto> ''githubapi/1.0''],
          Payload = NoBody\<rparr>])"
    by (simp add: GetRepoIfExist_def doJSON_def demo_defs intoRepo_def zeroProfileJSON_def)
  show ?thesis
    using fetched_repo_has_zero_client [of anyURL keepJSON "NewDefaultGitHubAPI (fixedServer 200 ''{}'')"
        984280187 zeroRepo _ "demoProfile (fixedServer 200 ''{}'')" "''Annuum''" zeroRepo] a b
    by (simp add: zeroRepo_def zeroGitHubAPI_def NewDefaultGitHubAPI_def)
qed

subsection \<open>Base64: what is encoded decodes to the content\<close>

lemma indexOf_nth:
  "distinct xs \<Longrightarrow> n < length xs \<Longrightarrow> indexOf (xs ! n) xs = Some n"
proof (induction xs arbitrary: n)
  case Nil
  then show ?case by simp
next
  case (Cons x xs)
  show ?case
  proof (cases n)
    case 0
    then show ?thesis by simp
  next
    case (Suc m)
    with Cons have "indexOf (xs ! m) xs = Some m" "xs ! m \<in> set xs" by auto
    with Cons.prems Suc show ?thesis by auto
  qed
qed

lemma encodeStd_facts:
  "distinct encodeStd" "length encodeStd = 64" "CHR ''='' \<notin> set encodeStd"
  by (simp_all add: encodeStd_def)

lemma sextet:
  assumes "n < 64"
  shows "indexOf (encodeStd ! n) encodeStd = Some n" "encodeStd ! n \<noteq> CHR ''=''"
proof -
  show "indexOf (encodeStd ! n) encodeStd = Some n"
    using assms by (simp add: indexOf_nth encodeStd_facts)
  have "encodeStd ! n \<in> set encodeStd"
    using assms by (simp add: encodeStd_facts)
  then show "encodeStd ! n \<noteq> CHR ''=''"
    using encodeStd_facts(3) by auto
qed

lemma div_bounds:
  fixes x :: nat
  assumes "x < 256"
  shows "x div 4 < 64" "x div 16 < 16" "x div 64 < 4"
  using assms by simp_all

lemma pack:
  fixes a b :: nat
  shows "b < 16 \<Longrightarrow> (a * 16 + b) div 16 = a" "b < 16 \<Longrightarrow> (a * 16 + b) mod 16 = b"
    "c < 4 \<Longrightarrow> (a * 4 + c) div 4 = a" "c < 4 \<Longrightarrow> (a * 4 + c) mod 4 = c"
  by simp_all

lemma regroup:
  fixes x y z :: nat
  assumes "x < 256" "y < 256" "z < 256"
  shows "x div 4 < 64" "(x mod 4) * 16 + y div 16 < 64" "(y mod 16) * 4 + z div 64 < 64"
    "z mod 64 < 64" "(x mod 4) * 16 < 64" "(y mod 16) * 4 < 64"
    "(x div 4) * 4 + ((x mod 4) * 16 + y div 16) div 16 = x"
    "(((x mod 4) * 16 + y div 16) mod 16) * 16 + ((y mod 16) * 4 + z div 64) div 4 = y"
    "(((y mod 16) * 4 + z div 64) mod 4) * 64 + z mod 64 = z"
    "(x div 4) * 4 + ((x mod 4) * 16) div 16 = x"
    "(((x mod 4) * 16 + y div 16) mod 16) * 16 + ((y mod 16) * 4) div 4 = y"
proof -
  have x4: "x mod 4 < 4" and y16: "y mod 16 < 16" by simp_all
  have yd: "y div 16 < 16" and zd: "z div 64 < 4" and xd: "x div 4 < 64"
    using assms by simp_all
  show "x div 4 < 64" by (rule xd)
  show "(x mod 4) * 16 + y div 16 < 64" using x4 yd by linarith
  show "(y mod 16) * 4 + z div 64 < 64" using y16 zd by linarith
  show "z mod 64 < 64" by simp
  show "(x mod 4) * 16 < 64" using x4 by linarith
  show "(y mod 16) * 4 < 64" using y16 by linarith
  show "(x div 4) * 4 + ((x mod 4) * 16 + y div 16) div 16 = x"
    using yd by (simp add: pack)
  show "(((x mod 4) * 16 + y div 16) mod 16) * 16 + ((y mod 16) * 4 + z div 64) div 4 = y"
    using yd zd by (simp add: pack)
  show "(((y mod 16) * 4 + z div 64) mod 4) * 64 + z mod 64 = z"
    using zd by (simp add: pack)
  show "(x div 4) * 4 + ((x mod 4) * 16) div 16 = x"
    by simp
  show "(((x mod 4) * 16 + y div 16) mod 16) * 16 + ((y mod 16) * 4) div 4 = y"
    using yd by (simp add: pack)
qed


lemma DecodeString_EncodeToString: "DecodeString (EncodeToString xs) = Some xs"
proof (induction xs rule: EncodeToString.induct)
  case 1
  show ?case by simp
next
  case (2 a)
  define x where "x = (of_char a :: nat)"
  have x: "x < 256" by (simp add: x_def)
  note r = regroup [OF x x x]
  have "char_of x = a" by (simp add: x_def)
  then show ?case
    using sextet [OF r(1)] sextet [OF r(5)] r(10)
    by (simp add: x_def [symmetric] Let_def)
next
  case (3 a b)
  define x y where "x = (of_char a :: nat)" and "y = (of_char b :: nat)"
  have x: "x < 256" and y: "y < 256" by (simp_all add: x_def y_def)
  note r = regroup [OF x y y]
  have "char_of x = a" "char_of y = b" by (simp_all add: x_def y_def)
  then show ?case
    using sextet [OF r(1)] sextet [OF r(2)] sextet [OF r(6)] r(7) r(11)
    by (simp add: x_def [symmetric] y_def [symmetric] Let_def)
next
  case (4 a b c rest)
  define x y z where "x = (of_char a :: nat)" and "y = (of_char b :: nat)" and "z = (of_char c :: nat)"
  have x: "x < 256" and y: "y < 256" and z: "z < 256" by (simp_all add: x_def y_def z_def)
  note r = regroup [OF x y z]
  have "char_of x = a" "char_of y = b" "char_of z = c" by (simp_all add: x_def y_def z_def)
  then show ?case
    using sextet [OF r(1)] sextet [OF r(2)] sextet [OF r(3)] sextet [OF r(4)] r(7) r(8) r(9) "4.IH"
    by (simp add: x_def [symmetric] y_def [symmetric] z_def [symmetric] Let_def)
qed

subsection \<open>The uploaded file name\<close>

lemma HasSuffix_iff: "HasSuffix s suf \<longleftrightarrow> (\<exists>u. s = u @ suf)"
proof
  assume "HasSuffix s suf"
  then have "s = take (length s - length suf) s @ suf"
    by (metis HasSuffix_def append_take_drop_id)
  then show "\<exists>u. s = u @ suf" ..
next
  assume "\<exists>u. s = u @ suf"
  then show "HasSuffix s suf"
    by (auto simp: HasSuffix_def)
qed

lemma toLowerByte_slash: "toLowerByte c = CHR ''.'' \<Longrightarrow> c \<noteq> CHR ''/''"
  by (auto simp: toLowerByte_def)

lemma ToLower_append: "ToLower (u @ v) = ToLower u @ ToLower v"
  by (simp add: ToLower_def)

lemma ToLower_md: "ToLower ''.md'' = ''.md''"
  by (simp add: ToLower_def toLowerByte_def)

lemma TrimLeftByte_keeps_md:
  assumes "HasSuffix (ToLower s) ''.md''"
  shows "HasSuffix (ToLower (TrimLeftByte s CHR ''/'')) ''.md''"
proof -
  from assms obtain u where "ToLower s = u @ ''.md''"
    by (auto simp: HasSuffix_iff)
  then obtain v t where s: "s = v @ t" and t: "map toLowerByte t = ''.md''"
    by (auto simp: ToLower_def map_eq_append_conv)
  from t obtain a b c where abc: "t = [a, b, c]" and a: "toLowerByte a = CHR ''.''"
    by (auto simp: map_eq_Cons_conv)
  have "a \<noteq> CHR ''/''"
    using a by (rule toLowerByte_slash)
  then have "\<exists>w. TrimLeftByte s CHR ''/'' = w @ t"
    by (auto simp: TrimLeftByte_def s abc dropWhile_append)
  then obtain w where "TrimLeftByte s CHR ''/'' = w @ t" ..
  then have "ToLower (TrimLeftByte s CHR ''/'') = ToLower w @ ''.md''"
    using t by (simp add: ToLower_def)
  then show ?thesis
    by (auto simp: HasSuffix_iff)
qed

lemma mdFileName_has_md: "HasSuffix (ToLower (mdFileName fn)) ''.md''"
proof -
  let ?g = "if \<not> HasSuffix (ToLower fn) ''.md'' then fn @ ''.md'' else fn"
  have "HasSuffix (ToLower ?g) ''.md''"
    by (auto simp: ToLower_append ToLower_md HasSuffix_iff)
  then show ?thesis
    unfolding mdFileName_def by (rule TrimLeftByte_keeps_md)
qed

lemma mdFileName_examples:
  "mdFileName ''notes'' = ''notes.md''"
  "mdFileName ''/docs/README.MD'' = ''docs/README.MD''"
  by (simp_all add: mdFileName_def HasSuffix_def ToLower_def toLowerByte_def TrimLeftByte_def)

subsection \<open>File upload\<close>

lemma doJSON_sent:
  assumes "http c = Some d"
  shows "\<exists>e out'. doJSON um c req out = Return (e, out', [req])"
  using assms
  by (auto simp: doJSON_def Let_def split: sum.splits option.splits prod.splits)

lemma Upload_unfold:
  assumes "TrimSpace filename \<noteq> []" "urlOK (uploadURL r (mdFileName (TrimSpace filename)))"
  shows "UploadMdFileWithToken urlOK dec r filename content msg br =
     (let fn = mdFileName (TrimSpace filename);
          commitMsg = (if msg = [] then ''chore: add '' @ fn else msg);
          branch = (if br = [] then DefaultBranch (repoJSON r) else br)
      in case doJSON dec (repoAPI r) (uploadRequest r fn content commitMsg branch)
                (Some zeroCreateContentResp) of
           Panic \<Rightarrow> Panic
         | Return (Some err, _, sent) \<Rightarrow>
             (case err of
                HTTPError code b \<Rightarrow>
                  if code = 422
                  then Return (None,
                         Some (Errorf ''file %q already exists on branch %q: %s'' [fn, branch, b]), sent)
                  else Return (None, Some err, sent)
              | _ \<Rightarrow> Return (None, Some err, sent))
         | Return (None, out, sent) \<Rightarrow> Return (out, None, sent))"
  using assms
  by (simp add: UploadMdFileWithToken_def newReq_def Let_def uploadRequest_def uploadURL_def)

text \<open>
  C5. \<^verbatim>\<open>UploadMdFileWithToken\<close>: a file name that is empty after trimming is rejected
  with an error and no request is sent. Otherwise exactly one request is sent, a PUT
  whose JSON body carries under \<open>content\<close> the base64 encoding of the content (which
  decodes to the content again), under \<open>message\<close> the commit message or the default
  \<open>chore: add <name>\<close>, and under \<open>branch\<close> the branch, or the repository's default
  branch, or nothing when both are empty. The uploaded name always ends in \<open>.md\<close> (in any
  letter case): \<open>.md\<close> is appended when the trimmed name lacks it. A 422 response gives
  the \<open>already exists\<close> error, which is not an \<open>HTTPError\<close>; any other response outside
  2xx gives the \<open>HTTPError\<close> with its status and body.
\<close>

theorem UploadMdFileWithToken_contract:
  "(TrimSpace filename = [] \<longrightarrow>
      UploadMdFileWithToken urlOK dec r filename content msg br
        = Return (None, Some (Errorf ''filename is empty'' []), []))
   \<and> (TrimSpace filename \<noteq> [] \<and> http (repoAPI r) = Some d
        \<and> urlOK (uploadURL r (mdFileName (TrimSpace filename))) \<longrightarrow>
      (\<exists>req m res err.
         UploadMdFileWithToken urlOK dec r filename content msg br = Return (res, err, [req])
         \<and> Method req = ''PUT'' \<and> URL req = uploadURL r (mdFileName (TrimSpace filename))
         \<and> Payload req = JSONObject m
         \<and> m ''content'' = Some (EncodeToString content)
         \<and> DecodeString (EncodeToString content) = Some content
         \<and> m ''message''
             = Some (if msg = [] then ''chore: add '' @ mdFileName (TrimSpace filename) else msg)
         \<and> m ''branch''
             = (if br \<noteq> [] then Some br
                else if DefaultBranch (repoJSON r) \<noteq> [] then Some (DefaultBranch (repoJSON r))
                else None)
         \<and> HasSuffix (ToLower (mdFileName (TrimSpace filename))) ''.md''
         \<and> mdFileName (TrimSpace filename)
             = TrimLeftByte (if HasSuffix (ToLower (TrimSpace filename)) ''.md''
                             then TrimSpace filename else TrimSpace filename @ ''.md'') CHR ''/''
         \<and> (\<forall>resp. d req = Inr resp \<and> StatusCode resp = 422 \<longrightarrow>
                res = None
                \<and> err = Some (Errorf ''file %q already exists on branch %q: %s''
                      [mdFileName (TrimSpace filename),
                       if br = [] then DefaultBranch (repoJSON r) else br,
                       take (2 ^ 20) (Body resp)])
                \<and> (\<forall>code b. err \<noteq> Some (HTTPError code b)))
         \<and> (\<forall>resp. d req = Inr resp \<and> (StatusCode resp < 200 \<or> 300 \<le> StatusCode resp)
                  \<and> StatusCode resp \<noteq> 422 \<longrightarrow>
                res = None
                \<and> err = Some (HTTPError (StatusCode resp) (take (2 ^ 20) (Body resp))))))"
  (is "_ \<and> (_ \<longrightarrow> ?C)")
proof (intro conjI impI)
  assume "TrimSpace filename = []"
  then show "UploadMdFileWithToken urlOK dec r filename content msg br
        = Return (None, Some (Errorf ''filename is empty'' []), [])"
    by (simp add: UploadMdFileWithToken_def)
next
  assume A: "TrimSpace filename \<noteq> [] \<and> http (repoAPI r) = Some d
        \<and> urlOK (uploadURL r (mdFileName (TrimSpace filename)))"
  define fn where "fn = mdFileName (TrimSpace filename)"
  define commitMsg where "commitMsg = (if msg = [] then ''chore: add '' @ fn else msg)"
  define branch where "branch = (if br = [] then DefaultBranch (repoJSON r) else br)"
  define req where "req = uploadRequest r fn content commitMsg branch"
  define m where "m = (let body = [''message'' \<mapsto> commitMsg, ''content'' \<mapsto> EncodeToString content]
         in if branch \<noteq> [] then body(''branch'' \<mapsto> branch) else body)"
  from A have d: "http (repoAPI r) = Some d" by simp
  obtain e out' where run: "doJSON dec (repoAPI r) req (Some zeroCreateContentResp) = Return (e, out', [req])"
    using doJSON_sent [OF d] by blast
  define res where "res = (case e of None \<Rightarrow> out' | Some _ \<Rightarrow> None)"
  define err where "err = (case e of None \<Rightarrow> None
     | Some (HTTPError code b) \<Rightarrow>
         if code = 422
         then Some (Errorf ''file %q already exists on branch %q: %s'' [fn, branch, b])
         else e
     | Some _ \<Rightarrow> e)"
  have up: "UploadMdFileWithToken urlOK dec r filename content msg br = Return (res, err, [req])"
    using A run
    by (simp add: Upload_unfold Let_def fn_def [symmetric] commitMsg_def [symmetric]
        branch_def [symmetric] req_def [symmetric] res_def err_def
        split: option.splits error.splits)
  have req: "Method req = ''PUT''" "URL req = uploadURL r fn" "Payload req = JSONObject m"
    by (simp_all add: req_def uploadRequest_def m_def)
  have m: "m ''content'' = Some (EncodeToString content)" "m ''message'' = Some commitMsg"
    "m ''branch'' = (if branch \<noteq> [] then Some branch else None)"
    by (simp_all add: m_def Let_def)
  have br: "(if branch \<noteq> [] then Some branch else None)
      = (if br \<noteq> [] then Some br
         else if DefaultBranch (repoJSON r) \<noteq> [] then Some (DefaultBranch (repoJSON r))
         else None)"
    by (simp add: branch_def)
  have name: "fn = TrimLeftByte (if HasSuffix (ToLower (TrimSpace filename)) ''.md''
                             then TrimSpace filename else TrimSpace filename @ ''.md'') CHR ''/''"
    by (simp add: fn_def mdFileName_def)
  have conflict: "res = None
       \<and> err = Some (Errorf ''file %q already exists on branch %q: %s'' [fn, branch, take (2 ^ 20) (Body resp)])
       \<and> (\<forall>code b. err \<noteq> Some (HTTPError code b))"
    if "d req = Inr resp \<and> StatusCode resp = 422" for resp
  proof -
    from that have "e = Some (HTTPError 422 (take (2 ^ 20) (Body resp)))"
      using run doJSON_non2xx [OF d, of req resp dec "Some zeroCreateContentResp"] by simp
    then show ?thesis
      by (simp add: res_def err_def)
  qed
  have other: "res = None \<and> err = Some (HTTPError (StatusCode resp) (take (2 ^ 20) (Body resp)))"
    if "d req = Inr resp \<and> (StatusCode resp < 200 \<or> 300 \<le> StatusCode resp) \<and> StatusCode resp \<noteq> 422"
    for resp
  proof -
    from that have "e = Some (HTTPError (StatusCode resp) (take (2 ^ 20) (Body resp)))"
      using run doJSON_non2xx [OF d, of req resp dec "Some zeroCreateContentResp"] by simp
    then show ?thesis
      using that by (simp add: res_def err_def)
  qed
  show ?C
  proof (intro exI conjI allI impI)
    show "UploadMdFileWithToken urlOK dec r filename content msg br = Return (res, err, [req])"
      by (rule up)
    show "Method req = ''PUT''" by (rule req)
    show "URL req = uploadURL r (mdFileName (TrimSpace filename))"
      using req(2) by (simp add: fn_def)
    show "Payload req = JSONObject m" by (rule req)
    show "m ''content'' = Some (EncodeToString content)" by (rule m)
    show "DecodeString (EncodeToString content) = Some content"
      by (rule DecodeString_EncodeToString)
    show "m ''message''
             = Some (if msg = [] then ''chore: add '' @ mdFileName (TrimSpace filename) else msg)"
      using m(2) by (simp add: commitMsg_def fn_def)
    show "m ''branch''
             = (if br \<noteq> [] then Some br
                else if DefaultBranch (repoJSON r) \<noteq> [] then Some (DefaultBranch (repoJSON r))
                else None)"
      using m(3) br by simp
    show "HasSuffix (ToLower (mdFileName (TrimSpace filename))) ''.md''"
      by (rule mdFileName_has_md)
    show "mdFileName (TrimSpace filename)
             = TrimLeftByte (if HasSuffix (ToLower (TrimSpace filename)) ''.md''
                             then TrimSpace filename else TrimSpace filename @ ''.md'') CHR ''/''"
      using name by (simp add: fn_def)
  next
    fix resp assume "d req = Inr resp \<and> StatusCode resp = 422"
    from conflict [OF this]
    show "res = None"
      "err = Some (Errorf ''file %q already exists on branch %q: %s''
                      [mdFileName (TrimSpace filename),
                       if br = [] then DefaultBranch (repoJSON r) else br,
                       take (2 ^ 20) (Body resp)])"
      "\<And>code b. err \<noteq> Some (HTTPError code b)"
      by (simp_all add: fn_def branch_def)
  next
    fix resp
    assume "d req = Inr resp \<and> (StatusCode resp < 200 \<or> 300 \<le> StatusCode resp) \<and> StatusCode resp \<noteq> 422"
    from other [OF this]
    show "res = None" "err = Some (HTTPError (StatusCode resp) (take (2 ^ 20) (Body resp)))"
      by simp_all
  qed
qed

lemma TrimSpace_notes: "TrimSpace '' notes '' = ''notes''" "TrimSpace ''   '' = []"
  by (simp_all add: TrimSpace_def trimLeading.simps leadingRuneLen_def spaceRunes_def HasPrefix_def)

lemma demo_upload_facts:
  "mdFileName ''notes'' = ''notes.md''"
  "uploadURL (demoRepo net) ''notes.md''
     = ''https://api.github.com/repos/DilemaFixer/Annuum/contents/notes.md''"
  "EncodeToString ''# Hi'' = ''IyBIaQ==''"
  "http (repoAPI (demoRepo net)) = Some net"
  "DefaultBranch (repoJSON (demoRepo net)) = ''main''"
     apply (simp add: mdFileName_def HasSuffix_def ToLower_def toLowerByte_def TrimLeftByte_def)
    apply (simp add: uploadURL_def demoRepo_def NewDefaultGitHubAPI_def zeroRepoJSON_def
      PathEscape_def escapeByte_def shouldEscape_def pathEscapeSegments_def)
   apply (simp add: encodeStd_def)
  apply (simp_all add: demoRepo_def NewDefaultGitHubAPI_def zeroRepoJSON_def)
  done

theorem UploadMdFileWithToken_contract_witness:
  "UploadMdFileWithToken anyURL keepJSON (demoRepo (fixedServer 422 ''exists'')) ''   '' ''# Hi'' [] []
     = Return (None, Some (Errorf ''filename is empty'' []), [])
   \<and> TrimSpace '' notes '' \<noteq> []
   \<and> http (repoAPI (demoRepo (fixedServer 422 ''exists''))) = Some (fixedServer 422 ''exists'')
   \<and> anyURL (uploadURL (demoRepo (fixedServer 422 ''exists'')) (mdFileName (TrimSpace '' notes '')))
   \<and> (\<exists>req m.
         UploadMdFileWithToken anyURL keepJSON (demoRepo (fixedServer 422 ''exists'')) '' notes '' ''# Hi'' [] []
           = Return (None,
               Some (Errorf ''file %q already exists on branch %q: %s'' [''notes.md'', ''main'', ''exists'']),
               [req])
         \<and> Method req = ''PUT''
         \<and> URL req = ''https://api.github.com/repos/DilemaFixer/Annuum/contents/notes.md''
         \<and> Payload req = JSONObject m
         \<and> m ''content'' = Some ''IyBIaQ==''
         \<and> m ''message'' = Some ''chore: add notes.md''
         \<and> m ''branch'' = Some ''main'')
   \<and> DecodeString ''IyBIaQ=='' = Some ''# Hi''
   \<and> (\<exists>sent.
         UploadMdFileWithToken anyURL keepJSON (demoRepo (fixedServer 500 ''boom'')) '' notes '' ''# Hi'' [] []
           = Return (None, Some (HTTPError 500 ''boom''), sent))"
proof -
  let ?r = "demoRepo (fixedServer 422 ''exists'')"
  let ?r' = "demoRepo (fixedServer 500 ''boom'')"
  have empty: "TrimSpace ''   '' = []" and nonempty: "TrimSpace '' notes '' \<noteq> []"
    by (simp_all add: TrimSpace_notes)
  have url: "anyURL u" for u
    by (simp add: anyURL_def)
  note T = UploadMdFileWithToken_contract
  have 1: "UploadMdFileWithToken anyURL keepJSON ?r ''   '' ''# Hi'' [] []
     = Return (None, Some (Errorf ''filename is empty'' []), [])"
    using T [of "''   ''" anyURL keepJSON ?r "''# Hi''" "[]" "[]"] empty by simp
  have "\<exists>req m res err.
         UploadMdFileWithToken anyURL keepJSON ?r '' notes '' ''# Hi'' [] [] = Return (res, err, [req])
         \<and> Method req = ''PUT''
         \<and> URL req = ''https://api.github.com/repos/DilemaFixer/Annuum/contents/notes.md''
         \<and> Payload req = JSONObject m
         \<and> m ''content'' = Some ''IyBIaQ==''
         \<and> DecodeString ''IyBIaQ=='' = Some ''# Hi''
         \<and> m ''message'' = Some ''chore: add notes.md''
         \<and> m ''branch'' = Some ''main''
         \<and> (\<forall>resp. fixedServer 422 ''exists'' req = Inr resp \<and> StatusCode resp = 422 \<longrightarrow>
                res = None
                \<and> err = Some (Errorf ''file %q already exists on branch %q: %s''
                      [''notes.md'', ''main'', take (2 ^ 20) (Body resp)]))"
    using T [of "'' notes ''" anyURL keepJSON ?r "''# Hi''" "[]" "[]" "fixedServer 422 ''exists''"]
      nonempty url
    by (simp add: TrimSpace_notes demo_upload_facts del: EncodeToString.simps DecodeString.simps) blast
  then obtain req m res err where
    2: "UploadMdFileWithToken anyURL keepJSON ?r '' notes '' ''# Hi'' [] [] = Return (res, err, [req])"
      "Method req = ''PUT''"
      "URL req = ''https://api.github.com/repos/DilemaFixer/Annuum/contents/notes.md''"
      "Payload req = JSONObject m" "m ''content'' = Some ''IyBIaQ==''"
      "DecodeString ''IyBIaQ=='' = Some ''# Hi''"
      "m ''message'' = Some ''chore: add notes.md''" "m ''branch'' = Some ''main''"
    and 3: "\<And>resp. fixedServer 422 ''exists'' req = Inr resp \<and> StatusCode resp = 422 \<Longrightarrow>
                res = None
                \<and> err = Some (Errorf ''file %q already exists on branch %q: %s''
                      [''notes.md'', ''main'', take (2 ^ 20) (Body resp)])"
    by blast
  have 4: "res = None" "err = Some (Errorf ''file %q already exists on branch %q: %s''
                      [''notes.md'', ''main'', ''exists''])"
    using 3 [of "\<lparr>StatusCode = 422, Body = ''exists'', ReadErr = None\<rparr>"]
    by (simp_all add: fixedServer_def)
  have "\<exists>req res err.
         UploadMdFileWithToken anyURL keepJSON ?r' '' notes '' ''# Hi'' [] [] = Return (res, err, [req])
         \<and> (\<forall>resp. fixedServer 500 ''boom'' req = Inr resp \<and> (StatusCode resp < 200 \<or> 300 \<le> StatusCode resp)
                  \<and> StatusCode resp \<noteq> 422 \<longrightarrow>
                res = None
                \<and> err = Some (HTTPError (StatusCode resp) (take (2 ^ 20) (Body resp))))"
    using T [of "'' notes ''" anyURL keepJSON ?r' "''# Hi''" "[]" "[]" "fixedServer 500 ''boom''"]
      nonempty url
    by (simp add: TrimSpace_notes demo_upload_facts del: EncodeToString.simps DecodeString.simps) blast
  then obtain req' res' err' where
    5: "UploadMdFileWithToken anyURL keepJSON ?r' '' notes '' ''# Hi'' [] [] = Return (res', err', [req'])"
    and 6: "\<And>resp. fixedServer 500 ''boom'' req' = Inr resp \<and> (StatusCode resp < 200 \<or> 300 \<le> StatusCode resp)
                  \<and> StatusCode resp \<noteq> 422 \<Longrightarrow>
                res' = None
                \<and> err' = Some (HTTPError (StatusCode resp) (take (2 ^ 20) (Body resp)))"
    by blast
  have 7: "res' = None" "err' = Some (HTTPError 500 ''boom'')"
    using 6 [of "\<lparr>StatusCode = 500, Body = ''boom'', ReadErr = None\<rparr>"]
    by (simp_all add: fixedServer_def)
  show ?thesis
    using 1 2 4 5 7 nonempty url
    by (simp add: demo_upload_facts TrimSpace_notes del: EncodeToString.simps DecodeString.simps)
qed

text \<open>
  What the zero-valued client of a fetched repository means for a later call on it: the
  upload reaches \<^verbatim>\<open>doJSON\<close> and calls \<^verbatim>\<open>Do\<close> on the nil transport.
\<close>

lemma fetched_repo_cannot_send:
  assumes "repoAPI r = zeroGitHubAPI" "TrimSpace filename \<noteq> []"
    "urlOK (uploadURL r (mdFileName (TrimSpace filename)))"
  shows "UploadMdFileWithToken urlOK dec r filename content msg br = Panic"
  using assms
  by (simp add: Upload_unfold Let_def doJSON_def zeroGitHubAPI_def)

subsection \<open>Clone URL preference\<close>

text \<open>
  C8. \<^verbatim>\<open>PreferredCloneURL\<close> returns the first applicable URL in the order: the SSH URL
  when the SSH preference flag is set and the SSH URL is non-empty, else the HTTPS clone
  URL if non-empty, else the git URL if non-empty, else the web (HTML) URL. For a
  repository with SSH URL \<open>git@x\<close> and HTTPS clone URL \<open>https://x\<close> the SSH preference
  yields \<open>git@x\<close> and the HTTPS preference yields \<open>https://x\<close>.
\<close>

theorem PreferredCloneURL_first_non_empty:
  "PreferredCloneURL r ssh = firstNonEmptyOr (cloneCandidates r ssh) (HTMLURL (repoJSON r))
   \<and> PreferredCloneURL
         (zeroRepo\<lparr>repoJSON := zeroRepoJSON\<lparr>SSHURL := ''git@x'', CloneURL := ''https://x''\<rparr>\<rparr>) True
       = ''git@x''
   \<and> PreferredCloneURL
         (zeroRepo\<lparr>repoJSON := zeroRepoJSON\<lparr>SSHURL := ''git@x'', CloneURL := ''https://x''\<rparr>\<rparr>) False
       = ''https://x''"
  by (simp add: PreferredCloneURL_def firstNonEmptyOr_def cloneCandidates_def zeroRepoJSON_def)

subsection \<open>The state token\<close>

lemma digitVal_digitChar: "d < 10 \<Longrightarrow> digitVal (digitChar d) = d"
proof -
  assume "d < 10"
  then have "indexOf (''0123456789'' ! d) ''0123456789'' = Some d"
    by (intro indexOf_nth) simp_all
  then show ?thesis
    by (simp add: digitVal_def digitChar_def)
qed

lemma digitChar_in: "d < 10 \<Longrightarrow> digitChar d \<in> set ''0123456789''"
  unfolding digitChar_def by (rule nth_mem) simp

lemma decimalValue_digits10: "decimalValue (digits10 n) = n"
proof (induction n rule: digits10.induct)
  case (1 n)
  show ?case
  proof (cases "n < 10")
    case True
    then show ?thesis
      by (subst digits10.simps) (simp add: decimalValue_def digitVal_digitChar)
  next
    case False
    with 1 have "decimalValue (digits10 (n div 10)) = n div 10" by simp
    then show ?thesis
      using False
      by (subst digits10.simps) (simp add: decimalValue_def digitVal_digitChar)
  qed
qed

lemma digits10_inj: "digits10 a = digits10 b \<Longrightarrow> a = b"
  by (metis decimalValue_digits10)

lemma digits10_chars: "set (digits10 n) \<subseteq> set ''0123456789''"
proof (induction n rule: digits10.induct)
  case (1 n)
  show ?case
  proof (cases "n < 10")
    case True
    then show ?thesis
      using digitChar_in [of n] by (subst digits10.simps) simp
  next
    case False
    with 1 have "set (digits10 (n div 10)) \<subseteq> set ''0123456789''" by simp
    then show ?thesis
      using False digitChar_in [of "n mod 10"]
      by (subst digits10.simps) simp
  qed
qed

lemma digits10_nonempty: "digits10 n \<noteq> []"
  by (subst digits10.simps) simp

lemma digits10_no_minus: "digits10 n \<noteq> CHR ''-'' # s"
proof
  assume "digits10 n = CHR ''-'' # s"
  then have "CHR ''-'' \<in> set (digits10 n)" by simp
  with digits10_chars [of n] show False by auto
qed

lemma FormatInt_inj: "FormatInt a = FormatInt b \<Longrightarrow> a = b"
proof -
  assume eq: "FormatInt a = FormatInt b"
  consider "a < 0" "b < 0" | "a < 0" "\<not> b < 0" | "\<not> a < 0" "b < 0" | "\<not> a < 0" "\<not> b < 0"
    by blast
  then show "a = b"
  proof cases
    case 1
    with eq have "nat (- a) = nat (- b)"
      by (simp add: FormatInt_def digits10_inj)
    with 1 show ?thesis by simp
  next
    case 2
    with eq have "digits10 (nat b) = CHR ''-'' # digits10 (nat (- a))"
      by (simp add: FormatInt_def)
    then show ?thesis
      using digits10_no_minus by blast
  next
    case 3
    with eq have "digits10 (nat a) = CHR ''-'' # digits10 (nat (- b))"
      by (simp add: FormatInt_def)
    then show ?thesis
      using digits10_no_minus by blast
  next
    case 4
    with eq have "nat a = nat b"
      by (simp add: FormatInt_def digits10_inj)
    with 4 show ?thesis by simp
  qed
qed

lemma FormatInt_no_underscore: "CHR ''_'' \<notin> set (FormatInt i)"
  using digits10_chars [of "nat i"] digits10_chars [of "nat (- i)"]
  by (auto simp: FormatInt_def)

lemma split_at_underscore:
  assumes "a @ CHR ''_'' # b = c @ CHR ''_'' # d" "CHR ''_'' \<notin> set a" "CHR ''_'' \<notin> set c"
  shows "a = c \<and> b = d"
proof -
  have "takeWhile (\<lambda>x. x \<noteq> CHR ''_'') (a @ CHR ''_'' # b) = a"
       "takeWhile (\<lambda>x. x \<noteq> CHR ''_'') (c @ CHR ''_'' # d) = c"
    using assms(2,3) by (auto simp: takeWhile_tail)
  with assms(1) have "a = c" by simp
  with assms(1) show ?thesis by simp
qed

text \<open>
  C3. The claim is that the state token is derived from a high-entropy source combined
  with the chat id. As amended: the state token is the chat id in decimal, an underscore
  and the reading of the nanosecond clock in decimal; two tokens are equal exactly when
  their chat ids and their clock readings are equal, so the token is determined by the
  chat id and the clock alone, and no random source enters it.
\<close>

theorem generateState_determined_by_chat_and_clock:
  "generateState w1 c1 = generateState w2 c2 \<longleftrightarrow> c1 = c2 \<and> UnixNano w1 = UnixNano w2"
proof
  assume "generateState w1 c1 = generateState w2 c2"
  then have "FormatInt c1 @ CHR ''_'' # FormatInt (UnixNano w1)
      = FormatInt c2 @ CHR ''_'' # FormatInt (UnixNano w2)"
    by (simp add: generateState_def)
  then have "FormatInt c1 = FormatInt c2 \<and> FormatInt (UnixNano w1) = FormatInt (UnixNano w2)"
    by (rule split_at_underscore) (rule FormatInt_no_underscore)+
  then show "c1 = c2 \<and> UnixNano w1 = UnixNano w2"
    by (auto dest: FormatInt_inj)
next
  assume "c1 = c2 \<and> UnixNano w1 = UnixNano w2"
  then show "generateState w1 c1 = generateState w2 c2"
    by (simp add: generateState_def)
qed

text \<open>
  The claim as stated fails: in two worlds whose random sources differ and whose clocks
  agree, chat 42 gets the same token, which is the chat id and the clock reading; one
  nanosecond later it gets the next one.
\<close>

theorem generateState_ignores_random_source:
  "generateState (demoWorld 1700000000000000000 ''a3f1'') 42 = ''42_1700000000000000000''
   \<and> generateState (demoWorld 1700000000000000000 ''9c0e'') 42 = ''42_1700000000000000000''
   \<and> generateState (demoWorld 1700000000000000001 ''a3f1'') 42 = ''42_1700000000000000001''
   \<and> randomBytes (demoWorld 1700000000000000000 ''a3f1'')
       \<noteq> randomBytes (demoWorld 1700000000000000000 ''9c0e'')"
  by (simp add: generateState_def demoWorld_def FormatInt_def digits10.simps digitChar_def)

subsection \<open>A session token is consumed at most once\<close>

lemma handleGitHubCallback_as_steps:
  "enterCallback m code state = (m', Rejected r)
     \<Longrightarrow> handleGitHubCallback w cfg m code state = (m', r, [])"
  "enterCallback m code state = (m', Holding st session c)
     \<Longrightarrow> completeCallback w cfg session c = (r, fx)
     \<Longrightarrow> handleGitHubCallback w cfg m code state = (m', r, fx)"
  "\<exists>m' cb. enterCallback m code state = (m', cb)
     \<and> ((\<exists>r. cb = Rejected r) \<or> (\<exists>session. cb = Holding state session code))"
  by (auto simp: handleGitHubCallback_def enterCallback_def split: prod.splits option.splits if_splits)

lemma takeSession_removes:
  "takeSession m state = (s, m') \<Longrightarrow> m' state = None \<and> (\<forall>x. m x = None \<longrightarrow> m' x = None)"
  by (auto simp: takeSession_def split: option.splits)

lemma callback_sessions:
  assumes "handleGitHubCallback w cfg m code state = (m', r, fx)"
  shows "\<forall>x. m x = None \<longrightarrow> m' x = None" "code \<noteq> [] \<Longrightarrow> state \<noteq> [] \<Longrightarrow> m' state = None"
  using assms
  by (auto simp: handleGitHubCallback_def takeSession_def split: if_splits option.splits prod.splits)

lemma runCallbacks_keeps_absent: "m t = None \<Longrightarrow> runCallbacks cfg m later t = None"
proof (induction later arbitrary: m)
  case Nil
  then show ?case by simp
next
  case (Cons a later)
  obtain w code state where a: "a = (w, code, state)" by (cases a)
  obtain m' r fx where h: "handleGitHubCallback w cfg m code state = (m', r, fx)"
    by (cases "handleGitHubCallback w cfg m code state")
  from callback_sessions(1) [OF h] Cons.prems have "m' t = None" by simp
  then show ?case
    using Cons.IH a h by simp
qed

lemma callback_rejects_absent:
  assumes "m t = None"
  shows "\<exists>msg. handleGitHubCallback w cfg m code t = (m, \<lparr>Status = 400, Page = PlainText msg\<rparr>, [])"
  using assms by (simp add: handleGitHubCallback_def takeSession_def)

lemma filter_update_count:
  "i < length ts \<Longrightarrow>
     length (filter P (ts[i := x])) + (if P (ts ! i) then 1 else 0)
       = length (filter P ts) + (if P x then 1 else 0)"
proof (induction ts arbitrary: i)
  case Nil
  then show ?case by simp
next
  case (Cons a ts)
  then show ?case by (cases i) auto
qed

lemma step_budget:
  assumes "step cfg c c'"
  shows "tokenBudget t c' \<le> tokenBudget t c"
  using assms
proof cases
  case (enter i ts code state m m' cb)
  have old: "\<not> consumed t (ts ! i)"
    using enter by (simp add: consumed_def)
  note cnt = filter_update_count [OF enter(3), of "consumed t" cb]
  show ?thesis
  proof (cases "code = [] \<or> state = [] \<or> m state = None")
    case True
    with enter have "m' = m" "\<not> consumed t cb"
      by (auto simp: enterCallback_def takeSession_def consumed_def split: if_splits option.splits)
    with cnt old enter show ?thesis
      by (simp add: tokenBudget_def)
  next
    case False
    then obtain s where s: "m state = Some s" by auto
    with False enter have m': "m' = m(state := None)" and cb: "cb = Holding state s code"
      by (auto simp: enterCallback_def takeSession_def)
    show ?thesis
    proof (cases "state = t")
      case True
      with cnt old enter m' cb s show ?thesis
        by (simp add: tokenBudget_def consumed_def)
    next
      case False
      with cnt old enter m' cb show ?thesis
        by (simp add: tokenBudget_def consumed_def)
    qed
  qed
next
  case (complete i ts state session code w r fx m)
  have "consumed t (ts ! i) = consumed t (Finished state r fx)"
    using complete by (simp add: consumed_def)
  with filter_update_count [OF complete(3), of "consumed t" "Finished state r fx"] complete
  show ?thesis
    by (simp add: tokenBudget_def split: if_splits)
qed

lemma steps_budget:
  assumes "rtranclp (step cfg) c c'"
  shows "tokenBudget t c' \<le> tokenBudget t c"
  using assms
proof (induction rule: rtranclp_induct)
  case base
  show ?case by simp
next
  case (step y z)
  from step_budget [OF step(2)] step(3) show ?case
    by (rule le_trans)
qed

lemma arrivals_budget:
  "tokenBudget t (m, map (\<lambda>(code, state). Arrived code state) arrivals) \<le> 1"
proof -
  have "filter (consumed t) (map (\<lambda>(code, state). Arrived code state) arrivals) = []"
    by (induction arrivals) (auto simp: consumed_def)
  then show ?thesis
    by (simp add: tokenBudget_def)
qed

text \<open>
  C2. The lookup and removal of the session is one step. After a callback with a code
  and a state token, and after any further callbacks, a callback presenting the same
  token is rejected with status 400 and does nothing else (no token exchange, no
  message). A callback whose token is not in the session map is rejected in the same
  way. In every interleaving of the steps of any number of concurrent callbacks, at most
  one callback consumes the session stored under a given token.
\<close>

theorem session_token_consumed_at_most_once:
  "(code \<noteq> [] \<and> state \<noteq> [] \<longrightarrow>
      (\<exists>msg. handleGitHubCallback w' cfg
                (runCallbacks cfg (fst (handleGitHubCallback w cfg m code state)) later) code' state
             = (runCallbacks cfg (fst (handleGitHubCallback w cfg m code state)) later,
                \<lparr>Status = 400, Page = PlainText msg\<rparr>, [])))
   \<and> (m state = None \<longrightarrow>
      (\<exists>msg. handleGitHubCallback w cfg m code state
             = (m, \<lparr>Status = 400, Page = PlainText msg\<rparr>, [])))
   \<and> (rtranclp (step cfg) (m, map (\<lambda>(code, state). Arrived code state) arrivals) (m', ts) \<longrightarrow>
      length (filter (consumed t) ts) \<le> 1)"
proof (intro conjI impI)
  assume ne: "code \<noteq> [] \<and> state \<noteq> []"
  obtain m1 r fx where h: "handleGitHubCallback w cfg m code state = (m1, r, fx)"
    by (cases "handleGitHubCallback w cfg m code state")
  from callback_sessions(2) [OF h] ne have "m1 state = None" by simp
  then have "runCallbacks cfg m1 later state = None"
    by (rule runCallbacks_keeps_absent)
  then show "\<exists>msg. handleGitHubCallback w' cfg
                (runCallbacks cfg (fst (handleGitHubCallback w cfg m code state)) later) code' state
             = (runCallbacks cfg (fst (handleGitHubCallback w cfg m code state)) later,
                \<lparr>Status = 400, Page = PlainText msg\<rparr>, [])"
    using callback_rejects_absent h by simp
next
  assume "m state = None"
  then show "\<exists>msg. handleGitHubCallback w cfg m code state
             = (m, \<lparr>Status = 400, Page = PlainText msg\<rparr>, [])"
    by (rule callback_rejects_absent)
next
  assume "rtranclp (step cfg) (m, map (\<lambda>(code, state). Arrived code state) arrivals) (m', ts)"
  from steps_budget [OF this, of t] arrivals_budget [of t m arrivals]
  show "length (filter (consumed t) ts) \<le> 1"
    by (simp add: tokenBudget_def split: if_splits)
qed

subsection \<open>Comparing the logins\<close>

lemma exchange_effects:
  "exchangeCodeForToken w cfg code = (res, fx) \<Longrightarrow> \<exists>req. fx = [HTTPDo req]"
  by (auto simp: exchangeCodeForToken_def Let_def split: sum.splits option.splits if_splits)

lemma getGitHubUser_effects:
  "getGitHubUser w tok = (res, fx) \<Longrightarrow> \<exists>req. fx = [HTTPDo req]"
  by (auto simp: getGitHubUser_def Let_def split: sum.splits option.splits)

lemma completeCallback_confirms:
  assumes "completeCallback w cfg session code = (r, fx)"
    "BotSend chat (OwnershipConfirmed n l e i) \<in> set fx"
  shows "ToLowerUnicode (mapToLower w) l = ToLowerUnicode (mapToLower w) (RequestedLogin session)
       \<and> chat = ChatID session
       \<and> r = \<lparr>Status = 200, Page = SuccessPage l\<rparr>"
proof (cases "exchangeCodeForToken w cfg code")
  case (Pair res fx1)
  from exchange_effects [OF Pair] obtain q1 where fx1: "fx1 = [HTTPDo q1]" ..
  show ?thesis
  proof (cases res)
    case (Inl err)
    with assms Pair fx1 show ?thesis
      by (auto simp: completeCallback_def)
  next
    case (Inr tup)
    obtain tok sc ty where tup: "tup = (tok, sc, ty)" by (cases tup)
    obtain res2 fx2 where g: "getGitHubUser w tok = (res2, fx2)"
      by (cases "getGitHubUser w tok")
    from getGitHubUser_effects [OF g] obtain q2 where fx2: "fx2 = [HTTPDo q2]" ..
    show ?thesis
    proof (cases res2)
      case (Inl err)
      with assms Pair Inr tup g fx1 fx2 show ?thesis
        by (auto simp: completeCallback_def)
    next
      case (Inr user)
      with assms Pair \<open>res = Inr tup\<close> tup g fx1 fx2 show ?thesis
        by (auto simp: completeCallback_def compareLogins_def split: if_splits)
    qed
  qed
qed

lemma completeCallback_mismatch:
  assumes "completeCallback w cfg session code = (r, fx)"
    "BotSend chat (VerificationMismatch requested authorized) \<in> set fx"
  shows "ToLowerUnicode (mapToLower w) authorized \<noteq> ToLowerUnicode (mapToLower w) requested
       \<and> requested = RequestedLogin session
       \<and> chat = ChatID session \<and> r = \<lparr>Status = 200, Page = MismatchPage\<rparr>"
proof (cases "exchangeCodeForToken w cfg code")
  case (Pair res fx1)
  from exchange_effects [OF Pair] obtain q1 where fx1: "fx1 = [HTTPDo q1]" ..
  show ?thesis
  proof (cases res)
    case (Inl err)
    with assms Pair fx1 show ?thesis
      by (auto simp: completeCallback_def)
  next
    case (Inr tup)
    obtain tok sc ty where tup: "tup = (tok, sc, ty)" by (cases tup)
    obtain res2 fx2 where g: "getGitHubUser w tok = (res2, fx2)"
      by (cases "getGitHubUser w tok")
    from getGitHubUser_effects [OF g] obtain q2 where fx2: "fx2 = [HTTPDo q2]" ..
    show ?thesis
    proof (cases res2)
      case (Inl err)
      with assms Pair Inr tup g fx1 fx2 show ?thesis
        by (auto simp: completeCallback_def)
    next
      case (Inr user)
      with assms Pair \<open>res = Inr tup\<close> tup g fx1 fx2 show ?thesis
        by (auto simp: completeCallback_def compareLogins_def split: if_splits)
    qed
  qed
qed

lemma callback_completes:
  assumes "handleGitHubCallback w cfg m code state = (m', r, fx)" "fx \<noteq> []"
  shows "\<exists>session. m state = Some session \<and> completeCallback w cfg session code = (r, fx)"
  using assms
  by (auto simp: handleGitHubCallback_def takeSession_def split: if_splits option.splits prod.splits)

text \<open>
  C6. When the exchange and the fetch of the user succeed, the callback compares the
  authenticated login with the requested login after \<^verbatim>\<open>strings.ToLower\<close> on both,
  whatever the Unicode case tables are. If they differ, the chat of the session is sent
  the mismatch message with the requested and the authorized login and the mismatch page
  is written with status 200; otherwise the confirmation is sent and the success page is
  written. A confirmation is sent only when the two logins agree after
  \<^verbatim>\<open>strings.ToLower\<close>, and a mismatch message only with status 200 and the mismatch
  page. \<open>Foo\<close> and \<open>foo\<close> agree.
\<close>

theorem logins_compared_ignoring_case:
  "(code \<noteq> [] \<and> state \<noteq> [] \<and> m state = Some session
      \<and> exchangeCodeForToken w cfg code = (Inr (tok, scopes, ty), fx1)
      \<and> getGitHubUser w tok = (Inr user, fx2) \<longrightarrow>
      handleGitHubCallback w cfg m code state =
        (m(state := None),
         if ToLowerUnicode (mapToLower w) (UserLogin user)
              = ToLowerUnicode (mapToLower w) (RequestedLogin session)
         then (\<lparr>Status = 200, Page = SuccessPage (UserLogin user)\<rparr>,
               fx1 @ fx2 @ [BotSend (ChatID session)
                  (OwnershipConfirmed (emptyIf (UserName user) dash) (UserLogin user)
                     (emptyIf (UserEmail user) dash) (UserID user))])
         else (\<lparr>Status = 200, Page = MismatchPage\<rparr>,
               fx1 @ fx2 @ [BotSend (ChatID session)
                  (VerificationMismatch (RequestedLogin session) (UserLogin user))])))
   \<and> (handleGitHubCallback w cfg m code state = (m', r, fx)
      \<and> BotSend chat (OwnershipConfirmed n l e i) \<in> set fx \<longrightarrow>
      (\<exists>session. m state = Some session \<and> chat = ChatID session
         \<and> ToLowerUnicode (mapToLower w) l
              = ToLowerUnicode (mapToLower w) (RequestedLogin session)))
   \<and> (handleGitHubCallback w cfg m code state = (m', r, fx)
      \<and> BotSend chat (VerificationMismatch requested authorized) \<in> set fx \<longrightarrow>
      (\<exists>session. m state = Some session \<and> chat = ChatID session
         \<and> requested = RequestedLogin session
         \<and> ToLowerUnicode (mapToLower w) authorized \<noteq> ToLowerUnicode (mapToLower w) requested)
      \<and> r = \<lparr>Status = 200, Page = MismatchPage\<rparr>)
   \<and> ToLowerUnicode mapLower ''Foo'' = ToLowerUnicode mapLower ''foo''"
proof (intro conjI impI)
  assume "code \<noteq> [] \<and> state \<noteq> [] \<and> m state = Some session
      \<and> exchangeCodeForToken w cfg code = (Inr (tok, scopes, ty), fx1)
      \<and> getGitHubUser w tok = (Inr user, fx2)"
  then show "handleGitHubCallback w cfg m code state =
        (m(state := None),
         if ToLowerUnicode (mapToLower w) (UserLogin user)
              = ToLowerUnicode (mapToLower w) (RequestedLogin session)
         then (\<lparr>Status = 200, Page = SuccessPage (UserLogin user)\<rparr>,
               fx1 @ fx2 @ [BotSend (ChatID session)
                  (OwnershipConfirmed (emptyIf (UserName user) dash) (UserLogin user)
                     (emptyIf (UserEmail user) dash) (UserID user))])
         else (\<lparr>Status = 200, Page = MismatchPage\<rparr>,
               fx1 @ fx2 @ [BotSend (ChatID session)
                  (VerificationMismatch (RequestedLogin session) (UserLogin user))]))"
    by (simp add: handleGitHubCallback_def takeSession_def completeCallback_def compareLogins_def)
next
  assume a: "handleGitHubCallback w cfg m code state = (m', r, fx)
      \<and> BotSend chat (OwnershipConfirmed n l e i) \<in> set fx"
  then have "fx \<noteq> []" by auto
  with a callback_completes obtain session where
    s: "m state = Some session" "completeCallback w cfg session code = (r, fx)"
    by blast
  from completeCallback_confirms [OF s(2)] a s(1)
  show "\<exists>session. m state = Some session \<and> chat = ChatID session
         \<and> ToLowerUnicode (mapToLower w) l
              = ToLowerUnicode (mapToLower w) (RequestedLogin session)"
    by blast
next
  assume a: "handleGitHubCallback w cfg m code state = (m', r, fx)
      \<and> BotSend chat (VerificationMismatch requested authorized) \<in> set fx"
  then have "fx \<noteq> []" by auto
  with a callback_completes obtain session where
    s: "m state = Some session" "completeCallback w cfg session code = (r, fx)"
    by blast
  from completeCallback_mismatch [OF s(2)] a s(1)
  show "\<exists>session. m state = Some session \<and> chat = ChatID session
         \<and> requested = RequestedLogin session
         \<and> ToLowerUnicode (mapToLower w) authorized \<noteq> ToLowerUnicode (mapToLower w) requested"
    and "r = \<lparr>Status = 200, Page = MismatchPage\<rparr>"
    by blast+
next
  show "ToLowerUnicode mapLower ''Foo'' = ToLowerUnicode mapLower ''foo''"
    by (simp add: ToLowerUnicode_def isASCII_def ToLower_def toLowerByte_def)
qed

lemma TrimSpace_scope: "TrimSpace ''user:email'' = ''user:email''"
  by (simp add: TrimSpace_def trimLeading.simps leadingRuneLen_def spaceRunes_def HasPrefix_def)

lemma okWorld_exchange:
  "fst (exchangeCodeForToken (okWorld login) demoConfig ''c0de'')
     = Inr (''gho_x'', [''user:email''], ''bearer'')"
  by (simp add: exchangeCodeForToken_def okWorld_def fixedServer_def Let_def TrimSpace_scope)

lemma okWorld_user:
  "fst (getGitHubUser (okWorld login) ''gho_x'')
     = Inr \<lparr>UserLogin = login, UserID = 7, UserName = [], UserEmail = [], AvatarURL = []\<rparr>"
  by (simp add: getGitHubUser_def okWorld_def fixedServer_def Let_def)

lemma ToLower_examples:
  "ToLowerUnicode mapLower ''Foo'' = ''foo''" "ToLowerUnicode mapLower ''foo'' = ''foo''"
  "ToLowerUnicode mapLower ''mallory'' = ''mallory''"
  by (simp_all add: ToLowerUnicode_def isASCII_def ToLower_def toLowerByte_def)

lemma emptyIf_empty: "emptyIf [] repl = repl"
  by (simp add: emptyIf_def TrimSpace_def trimLeading.simps)

text \<open>
  A login beyond ASCII: in a world whose case tables map the Kelvin sign to \<open>k\<close>, the
  requested login \<open>kelvinAte\<close> and the authorized login \<open>kate\<close> agree.
\<close>

lemma kelvin_lower:
  "ToLowerUnicode (mapToLower (okWorld login)) kelvinAte = ''kate''"
  "ToLowerUnicode (mapToLower (okWorld login)) ''kate'' = ''kate''"
  by (simp_all add: ToLowerUnicode_def isASCII_def ToLower_def toLowerByte_def okWorld_def
      demoMapLower_def kelvinAte_def)

theorem logins_compared_ignoring_case_witness:
  "''c0de'' \<noteq> [] \<and> ''42_1700000000000000000'' \<noteq> []
   \<and> demoSessions ''42_1700000000000000000'' = Some demoSession
   \<and> fst (exchangeCodeForToken (okWorld ''Foo'') demoConfig ''c0de'')
        = Inr (''gho_x'', [''user:email''], ''bearer'')
   \<and> fst (getGitHubUser (okWorld ''Foo'') ''gho_x'')
        = Inr \<lparr>UserLogin = ''Foo'', UserID = 7, UserName = [], UserEmail = [], AvatarURL = []\<rparr>
   \<and> handleGitHubCallback (okWorld ''Foo'') demoConfig demoSessions ''c0de'' ''42_1700000000000000000''
        = (demoSessions(''42_1700000000000000000'' := None),
           \<lparr>Status = 200, Page = SuccessPage ''Foo''\<rparr>,
           snd (exchangeCodeForToken (okWorld ''Foo'') demoConfig ''c0de'')
           @ snd (getGitHubUser (okWorld ''Foo'') ''gho_x'')
           @ [BotSend 42 (OwnershipConfirmed dash ''Foo'' dash 7)])
   \<and> handleGitHubCallback (okWorld ''mallory'') demoConfig demoSessions ''c0de'' ''42_1700000000000000000''
        = (demoSessions(''42_1700000000000000000'' := None),
           \<lparr>Status = 200, Page = MismatchPage\<rparr>,
           snd (exchangeCodeForToken (okWorld ''mallory'') demoConfig ''c0de'')
           @ snd (getGitHubUser (okWorld ''mallory'') ''gho_x'')
           @ [BotSend 42 (VerificationMismatch ''foo'' ''mallory'')])
   \<and> kelvinSessions ''42_1700000000000000000'' = Some kelvinSession
   \<and> handleGitHubCallback (okWorld ''kate'') demoConfig kelvinSessions ''c0de'' ''42_1700000000000000000''
        = (kelvinSessions(''42_1700000000000000000'' := None),
           \<lparr>Status = 200, Page = SuccessPage ''kate''\<rparr>,
           snd (exchangeCodeForToken (okWorld ''kate'') demoConfig ''c0de'')
           @ snd (getGitHubUser (okWorld ''kate'') ''gho_x'')
           @ [BotSend 42 (OwnershipConfirmed dash ''kate'' dash 7)])
   \<and> ToLowerUnicode demoMapLower ''Foo'' = ToLowerUnicode demoMapLower ''foo''"
proof -
  note T = logins_compared_ignoring_case
  have s: "demoSessions ''42_1700000000000000000'' = Some demoSession"
    by (simp add: demoSessions_def)
  have ex: "exchangeCodeForToken (okWorld login) demoConfig ''c0de''
      = (Inr (''gho_x'', [''user:email''], ''bearer''),
         snd (exchangeCodeForToken (okWorld login) demoConfig ''c0de''))" for login
    using okWorld_exchange [of login] by (metis prod.collapse)
  have us: "getGitHubUser (okWorld login) ''gho_x''
      = (Inr \<lparr>UserLogin = login, UserID = 7, UserName = [], UserEmail = [], AvatarURL = []\<rparr>,
         snd (getGitHubUser (okWorld login) ''gho_x''))" for login
    using okWorld_user [of login] by (metis prod.collapse)
  have 1: "handleGitHubCallback (okWorld ''Foo'') demoConfig demoSessions ''c0de'' ''42_1700000000000000000''
        = (demoSessions(''42_1700000000000000000'' := None),
           \<lparr>Status = 200, Page = SuccessPage ''Foo''\<rparr>,
           snd (exchangeCodeForToken (okWorld ''Foo'') demoConfig ''c0de'')
           @ snd (getGitHubUser (okWorld ''Foo'') ''gho_x'')
           @ [BotSend 42 (OwnershipConfirmed dash ''Foo'' dash 7)])"
    using T [where code = "''c0de''" and state = "''42_1700000000000000000''" and m = demoSessions
          and session = demoSession and w = "okWorld ''Foo''" and cfg = demoConfig
          and tok = "''gho_x''" and scopes = "[''user:email'']" and ty = "''bearer''"
          and ?fx1.0 = "snd (exchangeCodeForToken (okWorld ''Foo'') demoConfig ''c0de'')"
          and user = "\<lparr>UserLogin = ''Foo'', UserID = 7, UserName = [], UserEmail = [], AvatarURL = []\<rparr>"
          and ?fx2.0 = "snd (getGitHubUser (okWorld ''Foo'') ''gho_x'')", THEN conjunct1]
        s ex [of "''Foo''"] us [of "''Foo''"]
    by (simp add: ToLower_examples demoSession_def emptyIf_empty)
  have 2: "handleGitHubCallback (okWorld ''mallory'') demoConfig demoSessions ''c0de'' ''42_1700000000000000000''
        = (demoSessions(''42_1700000000000000000'' := None),
           \<lparr>Status = 200, Page = MismatchPage\<rparr>,
           snd (exchangeCodeForToken (okWorld ''mallory'') demoConfig ''c0de'')
           @ snd (getGitHubUser (okWorld ''mallory'') ''gho_x'')
           @ [BotSend 42 (VerificationMismatch ''foo'' ''mallory'')])"
    using T [where code = "''c0de''" and state = "''42_1700000000000000000''" and m = demoSessions
          and session = demoSession and w = "okWorld ''mallory''" and cfg = demoConfig
          and tok = "''gho_x''" and scopes = "[''user:email'']" and ty = "''bearer''"
          and ?fx1.0 = "snd (exchangeCodeForToken (okWorld ''mallory'') demoConfig ''c0de'')"
          and user = "\<lparr>UserLogin = ''mallory'', UserID = 7, UserName = [], UserEmail = [], AvatarURL = []\<rparr>"
          and ?fx2.0 = "snd (getGitHubUser (okWorld ''mallory'') ''gho_x'')", THEN conjunct1]
        s ex [of "''mallory''"] us [of "''mallory''"]
    by (simp add: ToLower_examples demoSession_def)
  have ks: "kelvinSessions ''42_1700000000000000000'' = Some kelvinSession"
    by (simp add: kelvinSessions_def)
  have 3: "handleGitHubCallback (okWorld ''kate'') demoConfig kelvinSessions ''c0de'' ''42_1700000000000000000''
        = (kelvinSessions(''42_1700000000000000000'' := None),
           \<lparr>Status = 200, Page = SuccessPage ''kate''\<rparr>,
           snd (exchangeCodeForToken (okWorld ''kate'') demoConfig ''c0de'')
           @ snd (getGitHubUser (okWorld ''kate'') ''gho_x'')
           @ [BotSend 42 (OwnershipConfirmed dash ''kate'' dash 7)])"
    using T [where code = "''c0de''" and state = "''42_1700000000000000000''" and m = kelvinSessions
          and session = kelvinSession and w = "okWorld ''kate''" and cfg = demoConfig
          and tok = "''gho_x''" and scopes = "[''user:email'']" and ty = "''bearer''"
          and ?fx1.0 = "snd (exchangeCodeForToken (okWorld ''kate'') demoConfig ''c0de'')"
          and user = "\<lparr>UserLogin = ''kate'', UserID = 7, UserName = [], UserEmail = [], AvatarURL = []\<rparr>"
          and ?fx2.0 = "snd (getGitHubUser (okWorld ''kate'') ''gho_x'')", THEN conjunct1]
        ks ex [of "''kate''"] us [of "''kate''"]
    by (simp add: kelvin_lower kelvinSession_def emptyIf_empty)
  show ?thesis
    using 1 2 3 s ks okWorld_exchange okWorld_user by (simp add: ToLower_examples)
qed

lemma demo_first_callback:
  "fst (handleGitHubCallback (okWorld ''foo'') demoConfig demoSessions ''c0de'' ''42_1700000000000000000'')
     = demoSessions(''42_1700000000000000000'' := None)"
  by (simp add: handleGitHubCallback_def takeSession_def demoSessions_def split: prod.splits)

lemma demo_interleaving:
  "rtranclp (step demoConfig)
     (demoSessions,
      map (\<lambda>(code, state). Arrived code state)
        [(''c0de'', ''42_1700000000000000000''), (''c0de'', ''42_1700000000000000000'')])
     (demoSessions(''42_1700000000000000000'' := None),
      [Holding ''42_1700000000000000000'' demoSession ''c0de'',
       Rejected \<lparr>Status = 400, Page = PlainText ''Invalid state''\<rparr>])"
proof -
  let ?st = "''42_1700000000000000000''"
  let ?m' = "demoSessions(?st := None)"
  have 1: "step demoConfig (demoSessions, [Arrived ''c0de'' ?st, Arrived ''c0de'' ?st])
       (?m', [Arrived ''c0de'' ?st, Arrived ''c0de'' ?st][0 := Holding ?st demoSession ''c0de''])"
    by (rule step.enter [where code = "''c0de''" and state = ?st])
       (simp_all add: enterCallback_def takeSession_def demoSessions_def)
  have 2: "step demoConfig (?m', [Holding ?st demoSession ''c0de'', Arrived ''c0de'' ?st])
       (?m', [Holding ?st demoSession ''c0de'', Arrived ''c0de'' ?st]
               [1 := Rejected \<lparr>Status = 400, Page = PlainText ''Invalid state''\<rparr>])"
    by (rule step.enter [where code = "''c0de''" and state = ?st])
       (simp_all add: enterCallback_def takeSession_def demoSessions_def)
  from 1 2 show ?thesis
    by simp
qed

theorem session_token_consumed_at_most_once_witness:
  "''c0de'' \<noteq> [] \<and> ''42_1700000000000000000'' \<noteq> []
   \<and> handleGitHubCallback (okWorld ''foo'') demoConfig
        (runCallbacks demoConfig
           (fst (handleGitHubCallback (okWorld ''foo'') demoConfig demoSessions
                   ''c0de'' ''42_1700000000000000000'')) [])
        ''c0de'' ''42_1700000000000000000''
      = (demoSessions(''42_1700000000000000000'' := None),
         \<lparr>Status = 400, Page = PlainText ''Invalid state''\<rparr>, [])
   \<and> Map.empty ''42_1'' = (None :: AuthSession option)
   \<and> handleGitHubCallback (okWorld ''foo'') demoConfig Map.empty ''c0de'' ''42_1''
      = (Map.empty, \<lparr>Status = 400, Page = PlainText ''Invalid state''\<rparr>, [])
   \<and> rtranclp (step demoConfig)
        (demoSessions,
         map (\<lambda>(code, state). Arrived code state)
           [(''c0de'', ''42_1700000000000000000''), (''c0de'', ''42_1700000000000000000'')])
        (demoSessions(''42_1700000000000000000'' := None),
         [Holding ''42_1700000000000000000'' demoSession ''c0de'',
          Rejected \<lparr>Status = 400, Page = PlainText ''Invalid state''\<rparr>])
   \<and> length (filter (consumed ''42_1700000000000000000'')
         [Holding ''42_1700000000000000000'' demoSession ''c0de'',
          Rejected \<lparr>Status = 400, Page = PlainText ''Invalid state''\<rparr>]) \<le> 1"
proof -
  note T = session_token_consumed_at_most_once
    [where code = "''c0de''" and state = "''42_1700000000000000000''" and w = "okWorld ''foo''"
       and w' = "okWorld ''foo''" and cfg = demoConfig and m = demoSessions and later = "[]"
       and code' = "''c0de''" and arrivals = "[(''c0de'', ''42_1700000000000000000''),
          (''c0de'', ''42_1700000000000000000'')]"
       and m' = "demoSessions(''42_1700000000000000000'' := None)"
       and ts = "[Holding ''42_1700000000000000000'' demoSession ''c0de'',
          Rejected \<lparr>Status = 400, Page = PlainText ''Invalid state''\<rparr>]"
       and t = "''42_1700000000000000000''"]
  have a: "handleGitHubCallback (okWorld ''foo'') demoConfig
        (demoSessions(''42_1700000000000000000'' := None)) ''c0de'' ''42_1700000000000000000''
      = (demoSessions(''42_1700000000000000000'' := None),
         \<lparr>Status = 400, Page = PlainText ''Invalid state''\<rparr>, [])"
    by (simp add: handleGitHubCallback_def takeSession_def)
  have b: "handleGitHubCallback (okWorld ''foo'') demoConfig Map.empty ''c0de'' ''42_1''
      = (Map.empty, \<lparr>Status = 400, Page = PlainText ''Invalid state''\<rparr>, [])"
    by (simp add: handleGitHubCallback_def takeSession_def)
  from T demo_interleaving
  have c: "length (filter (consumed ''42_1700000000000000000'')
         [Holding ''42_1700000000000000000'' demoSession ''c0de'',
          Rejected \<lparr>Status = 400, Page = PlainText ''Invalid state''\<rparr>]) \<le> 1"
    by blast
  show ?thesis
    using a b c demo_interleaving by (simp add: demo_first_callback)
qed

subsection \<open>Human-readable counts\<close>

lemmas humanize_eval = humanizeInt_def formatF1_def fdiv_def float64_def roundHalfEven_def
  binExp.simps FormatInt_def digits10.simps digitChar_def Let_def

lemma roundHalfEven_bounds:
  assumes "0 < b"
  shows "2 * a \<le> 2 * (b * roundHalfEven a b) + b" "2 * (b * roundHalfEven a b) \<le> 2 * a + b"
proof -
  define q r v where "q = a div b" and "r = a mod b" and "v = roundHalfEven a b"
  have a: "a = b * q + r" and r: "r < b"
    using assms by (simp_all add: q_def r_def)
  have up: "b * (q + 1) = b * q + b"
    by (simp add: algebra_simps)
  have "v = (if 2 * r < b then q else if b < 2 * r then q + 1
      else if even q then q else q + 1)"
    by (simp add: v_def roundHalfEven_def q_def r_def Let_def)
  then consider "v = q" "2 * r \<le> b" | "v = q + 1" "b \<le> 2 * r"
    by (auto split: if_splits)
  then have "2 * a \<le> 2 * (b * v) + b \<and> 2 * (b * v) \<le> 2 * a + b"
  proof cases
    case 1
    with a show ?thesis by simp
  next
    case 2
    with a r up show ?thesis by simp
  qed
  then show "2 * a \<le> 2 * (b * roundHalfEven a b) + b"
    "2 * (b * roundHalfEven a b) \<le> 2 * a + b"
    by (simp_all add: v_def)
qed

lemma binExp_bounds:
  "0 < b \<Longrightarrow> b \<le> a \<Longrightarrow> b * 2 ^ binExp a b \<le> a \<and> a < b * 2 ^ Suc (binExp a b)"
proof (induction a b rule: binExp.induct)
  case (1 a b)
  show ?case
  proof (cases "a < 2 * b")
    case True
    with 1(2,3) show ?thesis
      by (subst (1 2) binExp.simps) simp
  next
    case False
    then have "b \<le> a div 2" by simp
    with 1 False have IH: "b * 2 ^ binExp (a div 2) b \<le> a div 2"
      "a div 2 < b * 2 ^ Suc (binExp (a div 2) b)"
      by simp_all
    have eq: "binExp a b = Suc (binExp (a div 2) b)"
      using False 1(2) by (subst binExp.simps) simp
    have "2 * (b * 2 ^ binExp (a div 2) b) \<le> a"
      using IH(1) by linarith
    moreover have "a < 2 * (b * 2 ^ Suc (binExp (a div 2) b))"
      using IH(2) by linarith
    ultimately show ?thesis
      by (simp add: eq)
  qed
qed

lemma tenth_from_two_roundings:
  fixes n P m t h :: nat
  assumes m: "2 * (n * P) \<le> 2 * (20 * h * m) + 20 * h" "2 * (20 * h * m) \<le> 2 * (n * P) + 20 * h"
    and t: "2 * (10 * m) \<le> 2 * (P * t) + P" "2 * (P * t) \<le> 2 * (10 * m) + P"
    and d: "20 * h < 2 * P"
  shows "2 * h * t \<le> n + h" "n \<le> 2 * h * t + h"
proof -
  have m1: "n * P \<le> 20 * (h * m) + 10 * h" and m2: "20 * (h * m) \<le> n * P + 10 * h"
    using m by (simp_all add: algebra_simps)
  have "h * (2 * (10 * m)) \<le> h * (2 * (P * t) + P)"
    using t(1) by (rule mult_le_mono2)
  then have t1: "20 * (h * m) \<le> 2 * (h * (P * t)) + h * P"
    by (simp add: algebra_simps)
  have "h * (2 * (P * t)) \<le> h * (2 * (10 * m) + P)"
    using t(2) by (rule mult_le_mono2)
  then have t2: "2 * (h * (P * t)) \<le> 20 * (h * m) + h * P"
    by (simp add: algebra_simps)
  show "2 * h * t \<le> n + h"
  proof (rule ccontr)
    assume "\<not> 2 * h * t \<le> n + h"
    then have "n + h + 1 \<le> 2 * h * t" by simp
    then have "P * (n + h + 1) \<le> P * (2 * h * t)"
      by (rule mult_le_mono2)
    then have "n * P + h * P + P \<le> 2 * (h * (P * t))"
      by (simp add: algebra_simps)
    with t2 m2 d show False
      by linarith
  qed
  show "n \<le> 2 * h * t + h"
  proof (rule ccontr)
    assume "\<not> n \<le> 2 * h * t + h"
    then have "2 * h * t + h + 1 \<le> n" by simp
    then have "P * (2 * h * t + h + 1) \<le> P * n"
      by (rule mult_le_mono2)
    then have "2 * (h * (P * t)) + h * P + P \<le> n * P"
      by (simp add: algebra_simps)
    with t1 m1 d show False
      by linarith
  qed
qed

lemma one_decimal_of_quotient:
  fixes n h :: nat
  assumes h: "0 < h" and lo: "20 * h \<le> n" and hi: "n < 2 ^ 53"
  shows "\<exists>t. formatF1 (fdiv (float64 n) (20 * h))
             = digits10 (t div 10) @ ''.'' @ [digitChar (t mod 10)]
           \<and> 2 * h * t \<le> n + h \<and> n \<le> 2 * h * t + h"
proof -
  define d L where "d = 20 * h" and "L = binExp n d"
  have dpos: "0 < d" using h by (simp add: d_def)
  from binExp_bounds [OF dpos] lo
  have L: "d * 2 ^ L \<le> n" "n < d * 2 ^ Suc L"
    by (simp_all add: d_def L_def)
  define T where "T = (2::nat) ^ 52"
  have hiT: "n < 2 * T" using hi by (simp add: T_def)
  have "2 ^ L \<le> d * 2 ^ L"
    using dpos by simp
  with L(1) hiT have "(2::nat) ^ L < 2 * T" by linarith
  then have "(2::nat) ^ L < 2 ^ 53" by (simp add: T_def)
  then have L53: "L < 53"
    by (rule power_less_imp_less_exp [rotated]) simp
  define k P where "k = 52 - L" and "P = (2::nat) ^ k"
  have "P * 2 ^ L = 2 ^ (k + L)"
    by (simp add: P_def power_add)
  also have "k + L = 52" using L53 by (simp add: k_def)
  finally have PL: "P * 2 ^ L = T" by (simp add: T_def)
  have "d * 2 ^ L < 2 * (P * 2 ^ L)"
    using L(1) hiT PL by linarith
  then have "d * 2 ^ L < (2 * P) * 2 ^ L"
    by (simp add: mult.assoc)
  then have dP: "d < 2 * P"
    by (simp only: mult_less_cancel2)
  then have "1 < P" using h by (simp add: d_def)
  then have kpos: "0 < k"
    by (cases k) (simp_all add: P_def)
  define m t where "m = roundHalfEven (n * P) d" and "t = roundHalfEven (10 * m) P"
  have Ppos: "0 < P" by (simp add: P_def)
  have fd: "fdiv (float64 n) d = (m, - int k)"
    using hi L53 by (simp add: fdiv_def float64_def L_def [symmetric] Let_def m_def P_def k_def)
  have fmt: "formatF1 (m, - int k) = digits10 (t div 10) @ ''.'' @ [digitChar (t mod 10)]"
    using kpos by (simp add: formatF1_def Let_def t_def P_def mult.commute)
  note rm = roundHalfEven_bounds [OF dpos, of "n * P", folded m_def]
  note rt = roundHalfEven_bounds [OF Ppos, of "10 * m", folded t_def]
  have m: "2 * (n * P) \<le> 2 * (20 * h * m) + 20 * h" "2 * (20 * h * m) \<le> 2 * (n * P) + 20 * h"
    using rm by (simp_all add: d_def)
  have "2 * h * t \<le> n + h" "n \<le> 2 * h * t + h"
    using tenth_from_two_roundings [OF m rt] dP by (simp_all add: d_def)
  with fd fmt show ?thesis
    by (auto simp: d_def)
qed

text \<open>
  C9. The claim is that for every non-negative count the result is the decimal string
  below 1000, the quotient by 1000 with one decimal place and \<open>k\<close> below 1000000, and
  the quotient by 1000000 with one decimal place and \<open>M\<close> otherwise. As amended, for
  counts below \<open>2 ^ 53\<close>: below 1000 the result is the decimal string; from 1000 up to
  999999 it is \<open>t / 10\<close> printed with one decimal and \<open>k\<close>, where \<open>t / 10\<close> is the quotient
  by 1000 rounded to a nearest tenth (a tie goes to either neighbour); from 1000000 on it
  is the same for the quotient by 1000000, with \<open>M\<close>. The three examples hold.
\<close>

theorem humanizeInt_one_decimal:
  "(0 \<le> n \<and> n < 1000 \<longrightarrow> humanizeInt n = digits10 (nat n))
   \<and> (1000 \<le> n \<and> n < 1000000 \<longrightarrow>
        (\<exists>t. humanizeInt n = digits10 (t div 10) @ ''.'' @ [digitChar (t mod 10)] @ ''k''
           \<and> \<bar>100 * int t - n\<bar> \<le> 50))
   \<and> (1000000 \<le> n \<and> n < 2 ^ 53 \<longrightarrow>
        (\<exists>t. humanizeInt n = digits10 (t div 10) @ ''.'' @ [digitChar (t mod 10)] @ ''M''
           \<and> \<bar>100000 * int t - n\<bar> \<le> 50000))
   \<and> humanizeInt 999 = ''999'' \<and> humanizeInt 1500 = ''1.5k'' \<and> humanizeInt 2500000 = ''2.5M''"
proof (intro conjI impI)
  assume "0 \<le> n \<and> n < 1000"
  then show "humanizeInt n = digits10 (nat n)"
    by (simp add: humanizeInt_def FormatInt_def)
next
  assume a: "1000 \<le> n \<and> n < 1000000"
  then have n: "20 * 50 \<le> nat n" "nat n < 2 ^ 53" by (simp_all add: le_nat_iff nat_less_iff)
  from one_decimal_of_quotient [OF _ n] obtain t where
    t: "formatF1 (fdiv (float64 (nat n)) (20 * 50))
          = digits10 (t div 10) @ ''.'' @ [digitChar (t mod 10)]"
       "2 * 50 * t \<le> nat n + 50" "nat n \<le> 2 * 50 * t + 50"
    by auto
  from t(2,3) a have "\<bar>100 * int t - n\<bar> \<le> 50" by linarith
  moreover from t(1) a
  have "humanizeInt n = digits10 (t div 10) @ ''.'' @ [digitChar (t mod 10)] @ ''k''"
    by (simp add: humanizeInt_def)
  ultimately show "\<exists>t. humanizeInt n = digits10 (t div 10) @ ''.'' @ [digitChar (t mod 10)] @ ''k''
           \<and> \<bar>100 * int t - n\<bar> \<le> 50"
    by blast
next
  assume a: "1000000 \<le> n \<and> n < 2 ^ 53"
  then have n: "20 * 50000 \<le> nat n" "nat n < 2 ^ 53" by (simp_all add: le_nat_iff nat_less_iff)
  from one_decimal_of_quotient [OF _ n] obtain t where
    t: "formatF1 (fdiv (float64 (nat n)) (20 * 50000))
          = digits10 (t div 10) @ ''.'' @ [digitChar (t mod 10)]"
       "2 * 50000 * t \<le> nat n + 50000" "nat n \<le> 2 * 50000 * t + 50000"
    by auto
  from t(2,3) a have "\<bar>100000 * int t - n\<bar> \<le> 50000" by linarith
  moreover from t(1) a
  have "humanizeInt n = digits10 (t div 10) @ ''.'' @ [digitChar (t mod 10)] @ ''M''"
    by (simp add: humanizeInt_def)
  ultimately show "\<exists>t. humanizeInt n = digits10 (t div 10) @ ''.'' @ [digitChar (t mod 10)] @ ''M''
           \<and> \<bar>100000 * int t - n\<bar> \<le> 50000"
    by blast
next
  show "humanizeInt 999 = ''999''" "humanizeInt 1500 = ''1.5k''" "humanizeInt 2500000 = ''2.5M''"
    by (simp_all add: humanize_eval)
qed

theorem humanizeInt_one_decimal_witness:
  "(0::int) \<le> 999 \<and> (999::int) < 1000 \<and> humanizeInt 999 = digits10 999
   \<and> (1000::int) \<le> 1500 \<and> (1500::int) < 1000000
   \<and> (\<exists>t. humanizeInt 1500 = digits10 (t div 10) @ ''.'' @ [digitChar (t mod 10)] @ ''k''
          \<and> \<bar>100 * int t - 1500\<bar> \<le> 50)
   \<and> (1000000::int) \<le> 2500000 \<and> (2500000::int) < 2 ^ 53
   \<and> (\<exists>t. humanizeInt 2500000 = digits10 (t div 10) @ ''.'' @ [digitChar (t mod 10)] @ ''M''
          \<and> \<bar>100000 * int t - 2500000\<bar> \<le> 50000)"
proof -
  note T = humanizeInt_one_decimal
  have a: "(0::int) \<le> 999 \<and> (999::int) < 1000" by simp
  have b: "(1000::int) \<le> 1500 \<and> (1500::int) < 1000000" by simp
  have c: "(1000000::int) \<le> 2500000 \<and> (2500000::int) < 2 ^ 53" by simp
  have "humanizeInt 999 = digits10 (nat 999)"
    using T [of 999, THEN conjunct1, THEN mp, OF a] .
  then have 1: "humanizeInt 999 = digits10 999" by simp
  note 2 = T [of 1500, THEN conjunct2, THEN conjunct1, THEN mp, OF b]
  note 3 = T [of 2500000, THEN conjunct2, THEN conjunct2, THEN conjunct1, THEN mp, OF c]
  from a b c 1 2 3 show ?thesis by blast
qed

text \<open>
  The claim as stated fails for large counts: 17058628571949999 divided by 1000000 is
  17058628571.949999, and the result shows 17058628572.0, which is 0.050001 away.
\<close>

theorem humanizeInt_beyond_2_53:
  "humanizeInt 17058628571949999 = ''17058628572.0M''
   \<and> \<bar>100000 * 170586285720 - (17058628571949999::int)\<bar> = 50001"
  by (simp add: humanize_eval)

end
